theory Spec2Isabelle
  imports Main "HOL-Library.Word" "HOL-Library.AList"
begin

unbundle bit_operations_syntax

section \<open>Time, durations and bytes\<close>

text \<open>
  A Go \<open>time.Duration\<close> is a count of nanoseconds. A \<open>time.Time\<close> is modelled as the
  number of nanoseconds since the zero instant, so that \<open>IsZero\<close> is equality with 0 and
  \<open>After\<close> is \<open><\<close> read from the right.
\<close>

type_synonym Duration = int
type_synonym Time = int
type_synonym byte = "8 word"

definition Millisecond :: Duration where
  "Millisecond = 1000000"

definition Second :: Duration where
  "Second = 1000000000"

definition Hour :: Duration where
  "Hour = 3600 * Second"

definition IsZero :: "Time \<Rightarrow> bool" where
  "IsZero t = (t = 0)"

definition After :: "Time \<Rightarrow> Time \<Rightarrow> bool" where
  "After t u = (u < t)"

definition Add :: "Time \<Rightarrow> Duration \<Rightarrow> Time" where
  "Add t d = t + d"

section \<open>Backoff clock\<close>

record Backoff =
  MaxTries :: nat
  InitialDelay :: Duration
  MaxDelay :: Duration
  MaxDelayAfterTries :: nat
  CurrentTry :: nat

text \<open>
  Modelled from the spec: the methods \<open>Reset\<close> and \<open>NextDelay\<close> of the backoff structure
  (package \<open>degoutils/net\<close>) are not among the source files. The specification gives
  the delays as \<open>D_i = min (D0 * 2 ^ min i k) D_max\<close> for \<open>i < N\<close>, the zero duration
  at \<open>i = N\<close>, and \<open>Reset\<close> as returning \<open>i\<close> to 0.
\<close>

definition Reset :: "Backoff \<Rightarrow> Backoff" where
  "Reset b = b\<lparr>CurrentTry := 0\<rparr>"

definition NextDelay :: "Backoff \<Rightarrow> Duration \<times> Backoff" where
  "NextDelay b =
     (if CurrentTry b < MaxTries b
      then (min (InitialDelay b * 2 ^ min (CurrentTry b) (MaxDelayAfterTries b)) (MaxDelay b),
            b\<lparr>CurrentTry := CurrentTry b + 1\<rparr>)
      else (0, b))"

text \<open>The first \<open>n\<close> values that successive calls of \<open>NextDelay\<close> return.\<close>

fun NextDelays :: "nat \<Rightarrow> Backoff \<Rightarrow> Duration list" where
  "NextDelays 0 b = []"
| "NextDelays (Suc n) b = fst (NextDelay b) # NextDelays n (snd (NextDelay b))"

section \<open>The mapping object (portmap.go)\<close>

record Config =
  Protocol :: int
  Name :: string
  InternalPort :: "16 word"
  ExternalPort :: "16 word"
  Lifetime :: Duration
  Backoff :: Backoff

text \<open>
  An unbuffered channel that is only ever closed (\<open>abortChan\<close>) is open or closed;
  closing a closed channel panics. The notification channel has one slot: its state is
  the number of values waiting in it.
\<close>

datatype chan = ChanOpen | ChanClosed

text \<open>
  What a call can do: panic (a run-time panic that nothing recovers), return an error, or
  return a value.
\<close>

datatype error =
    ErrDial | ErrIO | ErrTimeout | ErrGateway "16 word" | ErrUnsupportedProtocol
  | ErrShortResponse | ErrURL | ErrHTTP | ErrStatus | ErrXML | ErrParseIP

datatype 'a result = Panic | Err error | Ok 'a

definition close_chan :: "chan \<Rightarrow> chan result" where
  "close_chan c = (case c of ChanOpen \<Rightarrow> Ok ChanClosed | ChanClosed \<Rightarrow> Panic)"

record mapping =
  cfg :: Config
  expireTime :: Time
  aborted :: bool
  abortChan :: chan
  notifyChan :: nat
  externalAddr :: string
  prevValue :: string

definition Delete :: "mapping \<Rightarrow> mapping result" where
  "Delete m =
     (if aborted m then Ok m
      else (case close_chan (abortChan m) of
              Ok c \<Rightarrow> Ok (m\<lparr>abortChan := c, aborted := True\<rparr>)
            | Err e \<Rightarrow> Err e
            | Panic \<Rightarrow> Panic))"

text \<open>\<open>Delete\<close> called \<open>n\<close> times in a row; a panic or an error ends the sequence.\<close>

fun Delete_times :: "nat \<Rightarrow> mapping \<Rightarrow> mapping result" where
  "Delete_times 0 m = Ok m"
| "Delete_times (Suc n) m =
     (case Delete m of Ok m' \<Rightarrow> Delete_times n m' | Err e \<Rightarrow> Err e | Panic \<Rightarrow> Panic)"

definition isActive :: "mapping \<Rightarrow> Time \<Rightarrow> bool" where
  "isActive m now = (\<not> IsZero (expireTime m) \<and> After (expireTime m) now)"

definition digit_char :: "nat \<Rightarrow> char" where
  "digit_char n = ''0123456789'' ! n"

function FormatUint :: "nat \<Rightarrow> string" where
  "FormatUint n = (if n < 10 then [digit_char n] else FormatUint (n div 10) @ [digit_char (n mod 10)])"
  by pat_completeness auto
termination
  by (relation "measure (\<lambda>n. n)") auto

text \<open>\<open>net.JoinHostPort\<close>: a host that contains a colon is put in brackets.\<close>

definition JoinHostPort :: "string \<Rightarrow> string \<Rightarrow> string" where
  "JoinHostPort host port =
     (if CHR '':'' \<in> set host then ''['' @ host @ '']:'' @ port else host @ '':'' @ port)"

definition ExternalAddr :: "mapping \<Rightarrow> Time \<Rightarrow> string" where
  "ExternalAddr m now =
     (if \<not> isActive m now \<or> ExternalPort (cfg m) = 0 then ''''
      else JoinHostPort (externalAddr m) (FormatUint (unat (ExternalPort (cfg m)))))"

text \<open>The state in which \<open>New\<close> leaves a mapping before the controller starts.\<close>

definition new_mapping :: "Config \<Rightarrow> mapping" where
  "new_mapping c =
     \<lparr>cfg = c, expireTime = 0, aborted = False, abortChan = ChanOpen, notifyChan = 0,
      externalAddr = '''', prevValue = ''''\<rparr>"

section \<open>NAT-PMP client (package natpmp)\<close>

text \<open>
  A Go byte slice is a window on a backing array: \<open>elems\<close> are the \<open>len\<close> bytes of the
  slice and \<open>spare\<close> the bytes of the array between its length and its capacity. A slice
  expression \<open>s[lo:hi]\<close> is checked against the capacity, \<open>s[lo:]\<close> and an index against
  the length; a failed check panics.
\<close>

record slice =
  elems :: "byte list"
  spare :: "byte list"

definition slice_from :: "slice \<Rightarrow> nat \<Rightarrow> slice result" where
  "slice_from s lo =
     (if lo \<le> length (elems s) then Ok (s\<lparr>elems := drop lo (elems s)\<rparr>) else Panic)"

definition slice_range :: "slice \<Rightarrow> nat \<Rightarrow> nat \<Rightarrow> slice result" where
  "slice_range s lo hi =
     (if lo \<le> hi \<and> hi \<le> length (elems s) + length (spare s)
      then Ok \<lparr>elems = take (hi - lo) (drop lo (elems s @ spare s)),
               spare = drop hi (elems s @ spare s)\<rparr>
      else Panic)"

text \<open>\<open>binary.BigEndian\<close>; the callers have checked the length.\<close>

definition Uint16 :: "byte list \<Rightarrow> 16 word" where
  "Uint16 b = (ucast (b ! 1)) OR push_bit 8 (ucast (b ! 0))"

definition Uint32 :: "byte list \<Rightarrow> 32 word" where
  "Uint32 b =
     (ucast (b ! 3)) OR push_bit 8 (ucast (b ! 2)) OR push_bit 16 (ucast (b ! 1))
       OR push_bit 24 (ucast (b ! 0))"

definition PutUint16 :: "16 word \<Rightarrow> byte list" where
  "PutUint16 v = [ucast (drop_bit 8 v), ucast v]"

definition PutUint32 :: "32 word \<Rightarrow> byte list" where
  "PutUint32 v = [ucast (drop_bit 24 v), ucast (drop_bit 16 v), ucast (drop_bit 8 v), ucast v]"

type_synonym IP = "byte list"

definition v4InV6Prefix :: "byte list" where
  "v4InV6Prefix = [0, 0, 0, 0, 0, 0, 0, 0, 0, 0, 255, 255]"

text \<open>\<open>net.IP.Equal\<close>: an IPv4 address equals its 16-byte form.\<close>

definition IP_Equal :: "IP \<Rightarrow> IP \<Rightarrow> bool" where
  "IP_Equal ip x =
     (if length ip = length x then ip = x
      else if length ip = 4 \<and> length x = 16 then take 12 x = v4InV6Prefix \<and> ip = drop 12 x
      else if length ip = 16 \<and> length x = 4 then take 12 ip = v4InV6Prefix \<and> drop 12 ip = x
      else False)"

definition opcGetExternalAddr :: byte where "opcGetExternalAddr = 0"
definition opcMapUDP :: byte where "opcMapUDP = 1"
definition opcMapTCP :: byte where "opcMapTCP = 2"

definition TCP :: int where "TCP = 6"
definition UDP :: int where "UDP = 17"

definition opcode :: "int \<Rightarrow> byte \<times> bool" where
  "opcode p = (if p = TCP then (opcMapTCP, True) else if p = UDP then (opcMapUDP, True) else (0, False))"

definition hostToGatewayPort :: int where
  "hostToGatewayPort = 5351"

definition backoff :: Backoff where
  "backoff = \<lparr>MaxTries = 9, InitialDelay = 250 * Millisecond, MaxDelay = 64000 * Millisecond,
              MaxDelayAfterTries = 8, CurrentTry = 0\<rparr>"

text \<open>
  The network as one transaction sees it: whether the socket can be opened, and for the
  \<open>i\<close>-th pass of the loop whether setting the deadline or writing fails and what the read
  returns (a timeout, another error, or a datagram with its source address and port).
  Every pass is recorded: the deadline it sets, relative to the time of the call, and the
  message it writes.
\<close>

datatype recv = RecvTimeout | RecvError | RecvDatagram slice IP int

datatype attempt = DeadlineFails | WriteFails | Reads recv

datatype effect = SetDeadline Duration | Write "byte list"

record network =
  dial_ok :: bool
  attempts :: "nat \<Rightarrow> attempt"

function makeRequest_loop ::
  "Backoff \<Rightarrow> (nat \<Rightarrow> attempt) \<Rightarrow> nat \<Rightarrow> IP \<Rightarrow> byte \<Rightarrow> byte list \<Rightarrow> effect list
     \<Rightarrow> slice result \<times> effect list" where
  "makeRequest_loop rconf net i dst opc msg log =
     (case NextDelay rconf of (maxtime, rconf') \<Rightarrow>
        if maxtime = 0 then (Err ErrTimeout, log)
        else (case net i of
            DeadlineFails \<Rightarrow> (Err ErrIO, log @ [SetDeadline maxtime])
          | WriteFails \<Rightarrow> (Err ErrIO, log @ [SetDeadline maxtime, Write msg])
          | Reads r \<Rightarrow>
              (case r of
                 RecvTimeout \<Rightarrow>
                   makeRequest_loop rconf' net (i + 1) dst opc msg
                     (log @ [SetDeadline maxtime, Write msg])
               | RecvError \<Rightarrow> (Err ErrIO, log @ [SetDeadline maxtime, Write msg])
               | RecvDatagram res uaddr_IP uaddr_Port \<Rightarrow>
                   if \<not> IP_Equal uaddr_IP dst \<or> uaddr_Port \<noteq> hostToGatewayPort
                   then makeRequest_loop rconf' net (i + 1) dst opc msg
                          (log @ [SetDeadline maxtime, Write msg])
                   else if length (elems res) < 4
                   then makeRequest_loop rconf' net (i + 1) dst opc msg
                          (log @ [SetDeadline maxtime, Write msg])
                   else if elems res ! 0 \<noteq> 0 \<or> elems res ! 1 \<noteq> (128 OR opc)
                   then makeRequest_loop rconf' net (i + 1) dst opc msg
                          (log @ [SetDeadline maxtime, Write msg])
                   else if Uint16 (drop 2 (elems res)) \<noteq> 0
                   then (Err (ErrGateway (Uint16 (drop 2 (elems res)))),
                         log @ [SetDeadline maxtime, Write msg])
                   else (slice_from res 4, log @ [SetDeadline maxtime, Write msg]))))"
  by pat_completeness auto
termination
  by (relation "measure (\<lambda>(rconf, net, i, dst, opc, msg, log). MaxTries rconf - CurrentTry rconf)")
     (auto simp: NextDelay_def split: if_splits)

declare makeRequest_loop.simps [simp del]

definition makeRequest :: "network \<Rightarrow> IP \<Rightarrow> byte \<Rightarrow> byte list \<Rightarrow> slice result \<times> effect list" where
  "makeRequest nw dst opc data =
     (if \<not> dial_ok nw then (Err ErrDial, [])
      else makeRequest_loop (Reset backoff) (attempts nw) 0 dst opc ([0, opc] @ data) [])"

definition natpmp_GetExternalAddr :: "network \<Rightarrow> IP \<Rightarrow> slice result" where
  "natpmp_GetExternalAddr nw gwaddr =
     (case fst (makeRequest nw gwaddr opcGetExternalAddr []) of
        Ok r \<Rightarrow> slice_range r 4 8
      | Err e \<Rightarrow> Err e
      | Panic \<Rightarrow> Panic)"

text \<open>
  The request carries \<open>uint32(lifetime.Seconds())\<close>; for a lifetime of whole seconds
  within 32 bits that is the number of seconds.
\<close>

definition natpmp_Map ::
  "network \<Rightarrow> IP \<Rightarrow> int \<Rightarrow> 16 word \<Rightarrow> 16 word \<Rightarrow> Duration \<Rightarrow> (16 word \<times> Duration) result" where
  "natpmp_Map nw gwaddr proto internalPort suggestedExternalPort lifetime =
     (case opcode proto of (opc, ok) \<Rightarrow>
        if \<not> ok then Err ErrUnsupportedProtocol
        else (case fst (makeRequest nw gwaddr opc
                     (PutUint16 0 @ PutUint16 internalPort @ PutUint16 suggestedExternalPort
                        @ PutUint32 (word_of_int (lifetime div Second)))) of
                Ok r \<Rightarrow>
                  if length (elems r) < 12 then Err ErrShortResponse
                  else Ok (Uint16 (take 2 (drop 6 (elems r))),
                           uint (Uint32 (take 4 (drop 8 (elems r)))) * Second)
              | Err e \<Rightarrow> Err e
              | Panic \<Rightarrow> Panic))"

section \<open>UPnP client (upnp/upnp.go)\<close>

record xURLField =
  URL :: string
  OK :: bool
  Str :: string

record xService =
  ServiceType :: string
  ServiceID :: string
  ControlURL :: xURLField

datatype xDevice = XDevice "xService list" "xDevice list"

text \<open>
  The messages that the client posts. The source formats them as XML text; here they are
  kept as the values that the text is formatted from.
\<close>

datatype soap_msg =
    AddPortMapping "16 word" string "16 word" string string "32 word"
  | DeletePortMapping "16 word" string
  | GetExternalIPAddress

text \<open>
  The network and the library as this client sees them. A URL is kept as its text and a
  pointer to a URL as an optional text, \<open>None\<close> being the nil pointer. \<open>http_Get\<close> answers
  with a failure or a status code and the root device decoded from the body (\<open>None\<close> when
  the body does not decode); \<open>http_Post\<close> with a failure or a status code and what the
  reply decodes to.
\<close>

datatype get_result = GetFails | GetStatus int "xDevice option"

datatype reply = ReplyUndecodable | ReplyAddress string

datatype post_result = PostFails | PostStatus int reply

record web =
  url_Parse :: "string \<Rightarrow> string option"
  ResolveReference :: "string \<Rightarrow> string \<Rightarrow> string"
  http_Get :: "string \<Rightarrow> get_result"
  dial_local :: "string \<Rightarrow> string option"
  http_Post :: "string \<Rightarrow> string \<Rightarrow> soap_msg \<Rightarrow> post_result"
  ParseIP :: "string \<Rightarrow> string option"
  Int31n :: "int \<Rightarrow> int"

definition InitURLFields_field :: "web \<Rightarrow> string \<Rightarrow> xURLField \<Rightarrow> xURLField" where
  "InitURLFields_field w base f =
     (case url_Parse w (Str f) of
        None \<Rightarrow> f\<lparr>URL := '''', OK := False\<rparr>
      | Some u \<Rightarrow> f\<lparr>URL := ResolveReference w base u, OK := True\<rparr>)"

definition InitURLFields_service :: "web \<Rightarrow> string \<Rightarrow> xService \<Rightarrow> xService" where
  "InitURLFields_service w base s = s\<lparr>ControlURL := InitURLFields_field w base (ControlURL s)\<rparr>"

fun InitURLFields :: "web \<Rightarrow> string \<Rightarrow> xDevice \<Rightarrow> xDevice" where
  "InitURLFields w base (XDevice svcs devs) =
     XDevice (map (InitURLFields_service w base) svcs) (map (InitURLFields w base) devs)"

text \<open>
  \<open>VisitServices\<close> calls the visitor on the services of the device, then on those of its
  sub-devices. The visitor of the source assigns to a variable of its caller; here it
  takes that variable and returns it.
\<close>

fun VisitServices :: "xDevice \<Rightarrow> (xService \<Rightarrow> 'a \<Rightarrow> 'a) \<Rightarrow> 'a \<Rightarrow> 'a" where
  "VisitServices (XDevice svcs devs) f acc =
     fold (\<lambda>d. VisitServices d f) devs (fold f svcs acc)"

definition visitor :: "xService \<Rightarrow> string option \<Rightarrow> string option" where
  "visitor s wurl =
     (if ServiceType s \<noteq> ''urn:schemas-upnp-org:service:WANIPConnection:1'' \<or> wurl \<noteq> None
         \<or> \<not> OK (ControlURL s)
      then wurl else Some (URL (ControlURL s)))"

definition getWANIPControlURL :: "web \<Rightarrow> string \<Rightarrow> string option \<times> error option" where
  "getWANIPControlURL w upnpURL =
     (case url_Parse w upnpURL of
        None \<Rightarrow> (None, Some ErrURL)
      | Some urlp \<Rightarrow>
          (case http_Get w upnpURL of
             GetFails \<Rightarrow> (None, Some ErrHTTP)
           | GetStatus code body \<Rightarrow>
               if code \<noteq> 200 then (None, Some ErrStatus)
               else (case body of
                       None \<Rightarrow> (None, Some ErrXML)
                     | Some root \<Rightarrow>
                         (VisitServices (InitURLFields w urlp root) visitor None, None))))"

definition soapRequest :: "web \<Rightarrow> string \<Rightarrow> string \<Rightarrow> soap_msg \<Rightarrow> reply result" where
  "soapRequest w url method msg =
     (case http_Post w url method msg of
        PostFails \<Rightarrow> Err ErrHTTP
      | PostStatus code r \<Rightarrow> if code \<noteq> 200 then Err ErrStatus else Ok r)"

text \<open>\<open>determineSelfIP\<close> reads \<open>u.Host\<close>, and \<open>u.String()\<close> the fields of \<open>u\<close>: on a nil pointer both panic.\<close>

definition determineSelfIP :: "web \<Rightarrow> string option \<Rightarrow> string result" where
  "determineSelfIP w u =
     (case u of
        None \<Rightarrow> Panic
      | Some url \<Rightarrow> (case dial_local w url of None \<Rightarrow> Err ErrDial | Some ip \<Rightarrow> Ok ip))"

definition URL_String :: "string option \<Rightarrow> string result" where
  "URL_String u = (case u of None \<Rightarrow> Panic | Some url \<Rightarrow> Ok url)"

definition randInRange :: "web \<Rightarrow> 16 word \<Rightarrow> 16 word \<Rightarrow> 16 word" where
  "randInRange w low high = word_of_int (Int31n w (uint (high - low)) + uint low)"

definition Protocol_String :: "int \<Rightarrow> string result" where
  "Protocol_String p =
     (if p = TCP then Ok ''TCP'' else if p = UDP then Ok ''UDP'' else Panic)"

definition upnp_Map ::
  "web \<Rightarrow> string \<Rightarrow> int \<Rightarrow> 16 word \<Rightarrow> 16 word \<Rightarrow> string \<Rightarrow> Duration \<Rightarrow> 16 word result" where
  "upnp_Map w upnpURL protocol internalPort externalPort name duration =
     (case getWANIPControlURL w upnpURL of (wurl, err) \<Rightarrow>
        (let externalPort' = (if externalPort = 0 then randInRange w 1025 65000 else externalPort)
         in case determineSelfIP w wurl of
              Panic \<Rightarrow> Panic
            | Err e \<Rightarrow> Err e
            | Ok selfIP \<Rightarrow>
                (case Protocol_String protocol of
                   Panic \<Rightarrow> Panic
                 | Err e \<Rightarrow> Err e
                 | Ok proto \<Rightarrow>
                     (case URL_String wurl of
                        Panic \<Rightarrow> Panic
                      | Err e \<Rightarrow> Err e
                      | Ok url \<Rightarrow>
                          (case soapRequest w url ''AddPortMapping''
                                  (AddPortMapping externalPort' proto internalPort selfIP name
                                     (word_of_int (duration div Second))) of
                             Panic \<Rightarrow> Panic
                           | Err e \<Rightarrow> Err e
                           | Ok res \<Rightarrow> Ok externalPort')))))"

definition upnp_Unmap :: "web \<Rightarrow> string \<Rightarrow> int \<Rightarrow> 16 word \<Rightarrow> unit result" where
  "upnp_Unmap w upnpURL protocol externalPort =
     (case getWANIPControlURL w upnpURL of (wurl, err) \<Rightarrow>
        (case Protocol_String protocol of
           Panic \<Rightarrow> Panic
         | Err e \<Rightarrow> Err e
         | Ok proto \<Rightarrow>
             (case URL_String wurl of
                Panic \<Rightarrow> Panic
              | Err e \<Rightarrow> Err e
              | Ok url \<Rightarrow>
                  (case soapRequest w url ''DeletePortMapping''
                          (DeletePortMapping externalPort proto) of
                     Panic \<Rightarrow> Panic
                   | Err e \<Rightarrow> Err e
                   | Ok res \<Rightarrow> Ok ()))))"

definition upnp_GetExternalAddr :: "web \<Rightarrow> string \<Rightarrow> string result" where
  "upnp_GetExternalAddr w upnpURL =
     (case getWANIPControlURL w upnpURL of (wurl, err) \<Rightarrow>
        (case URL_String wurl of
           Panic \<Rightarrow> Panic
         | Err e \<Rightarrow> Err e
         | Ok url \<Rightarrow>
             (case soapRequest w url ''GetExternalIPAddress'' GetExternalIPAddress of
                Panic \<Rightarrow> Panic
              | Err e \<Rightarrow> Err e
              | Ok res \<Rightarrow>
                  (case res of
                     ReplyUndecodable \<Rightarrow> Err ErrXML
                   | ReplyAddress a \<Rightarrow>
                       (case ParseIP w a of None \<Rightarrow> Err ErrParseIP | Some ip \<Rightarrow> Ok ip)))))"

text \<open>The services of a device in the order in which \<open>VisitServices\<close> visits them.\<close>

fun services_of :: "xDevice \<Rightarrow> xService list" where
  "services_of (XDevice svcs devs) = svcs @ concat (map services_of devs)"

section \<open>SSDP registry (ssdp/ssdp.go)\<close>

record Service =
  Location :: string
  ST :: string
  USN :: string
  LastSeen :: Time

definition BroadcastInterval :: Duration where
  "BroadcastInterval = 60 * Second"

text \<open>
  The registry \<open>byUSN\<close> is a Go map from USN to service; it is kept as an association
  list. Go iterates a map in no fixed order, so only the membership of the result of
  \<open>GetServicesByType\<close> is meaningful, not its order.
\<close>

type_synonym registry = "(string \<times> Service) list"

definition GetServicesByType :: "registry \<Rightarrow> Time \<Rightarrow> string \<Rightarrow> Service list" where
  "GetServicesByType byUSN now st =
     (let limit = Add now (BroadcastInterval * (- 3))
      in map snd (filter (\<lambda>(k, v). ST v = st \<and> After (LastSeen v) limit) byUSN))"

section \<open>The mapping controller (portMappingLoop)\<close>

text \<open>Go's integer division truncates towards zero.\<close>

definition tdiv :: "int \<Rightarrow> int \<Rightarrow> int" where
  "tdiv a b = (if (a < 0) = (b < 0) then \<bar>a\<bar> div \<bar>b\<bar> else - (\<bar>a\<bar> div \<bar>b\<bar>))"

definition DefaultLifetime :: Duration where
  "DefaultLifetime = 2 * Hour"

definition upnpWANIPConnectionURN :: string where
  "upnpWANIPConnectionURN = ''urn:schemas-upnp-org:service:WANIPConnection:1''"

text \<open>\<open>net.IP.String\<close> of the four bytes that the NAT-PMP client returns.\<close>

definition IPv4_String :: "byte \<times> byte \<times> byte \<times> byte \<Rightarrow> string" where
  "IPv4_String ip =
     (case ip of (a, b, c, d) \<Rightarrow>
        FormatUint (unat a) @ ''.'' @ FormatUint (unat b) @ ''.'' @ FormatUint (unat c)
          @ ''.'' @ FormatUint (unat d))"

text \<open>
  \<open>notify\<close>: when the external address differs from the one last notified, remember it
  and fill the single slot of the notification channel unless it is taken.
\<close>

definition notify :: "mapping \<Rightarrow> Time \<Rightarrow> mapping" where
  "notify m now =
     (let ea = ExternalAddr m now
      in if prevValue m = ea then m
         else m\<lparr>prevValue := ea,
                notifyChan := (if notifyChan m < 1 then notifyChan m + 1 else notifyChan m)\<rparr>)"

definition setInactive :: "mapping \<Rightarrow> Time \<Rightarrow> mapping" where
  "setInactive m now = notify (m\<lparr>expireTime := 0\<rparr>) now"

text \<open>The body of the registry's \<open>loop\<close> for one SSDP event received at time \<open>now\<close>.\<close>

record Event =
  ev_Location :: string
  ev_ST :: string
  ev_USN :: string

definition register :: "Event \<Rightarrow> Time \<Rightarrow> registry \<Rightarrow> registry" where
  "register ev now byUSN =
     AList.update (ev_USN ev)
       \<lparr>Location = ev_Location ev, ST = ev_ST ev, USN = ev_USN ev, LastSeen = now\<rparr> byUSN"

text \<open>
  The controller is a task that runs beside the callers of \<open>Delete\<close> and \<open>ExternalAddr\<close>,
  the SSDP registry and the clock. Its state is the mapping object, the local variables of
  \<open>portMappingLoop\<close> and the place it has reached. A place is the head of the loop, the
  head of the loop over the gateways or the services, a call to a backend that has not
  returned yet, the code after the attempt, the wait in \<open>select\<close>, or the end.
\<close>

datatype mode = modeNATPMP | modeUPnP

datatype place =
    LoopTop
  | NatGW nat
  | NatMapCall nat IP Duration
  | NatIPCall nat IP Time
  | UpSvc "Service list"
  | UpUnmapCall Service "Service list"
  | UpMapCall Service "Service list"
  | UpIPCall Service
  | AfterAttempt
  | Sleeping Time
  | Returned
  | Crashed

text \<open>
  What the controller has done so far: the backend calls that have returned, with their
  results, the calls of the backoff clock, and the calls of \<open>notify\<close>.
\<close>

datatype action =
    ActNatMap IP Duration "(16 word \<times> Duration) result"
  | ActNatGetExternalAddr IP "(byte \<times> byte \<times> byte \<times> byte) result"
  | ActUpnpMap string "16 word result"
  | ActUpnpUnmap string "unit result"
  | ActUpnpGetExternalAddr string "string result"
  | ActReset
  | ActNextDelay Duration
  | ActNotify

record ctl =
  obj :: mapping
  gwa :: "IP list"
  l_aborting :: bool
  l_mode :: mode
  l_ok :: bool
  l_d :: Duration
  pc :: place
  clock :: Time
  byUSN :: registry
  trace :: "action list"

text \<open>
  What the environment contributes to a step of the controller: the result of the backend
  call in flight, or which case of the \<open>select\<close> fires.
\<close>

datatype response =
    NoResponse
  | MapResp "(16 word \<times> Duration) result"
  | IPResp "(byte \<times> byte \<times> byte \<times> byte) result"
  | UpMapResp "16 word result"
  | UpUnmapResp "unit result"
  | UpIPResp "string result"
  | AbortFires
  | TimerFires

datatype event =
    Tick Duration
  | CallDelete
  | Receive
  | SsdpEvent Event
  | Step response

text \<open>The state in which \<open>New\<close> starts the controller.\<close>

definition init :: "Config \<Rightarrow> IP list \<Rightarrow> registry \<Rightarrow> Time \<Rightarrow> ctl" where
  "init c gws reg t0 =
     \<lparr>obj = new_mapping (if Lifetime c = 0 then c\<lparr>Lifetime := DefaultLifetime\<rparr> else c),
      gwa = gws, l_aborting = False, l_mode = modeNATPMP, l_ok = False, l_d = 0,
      pc = LoopTop, clock = t0, byUSN = reg, trace = []\<rparr>"

text \<open>\<open>tryNATPMP\<close> has returned \<open>b\<close>: the rest of the case \<open>modeNATPMP\<close>.\<close>

definition tryNATPMP_returns :: "bool \<Rightarrow> ctl \<Rightarrow> ctl" where
  "tryNATPMP_returns b s =
     (if b then s\<lparr>l_ok := True, l_d := tdiv (Lifetime (cfg (obj s))) 2, pc := AfterAttempt\<rparr>
      else (let svc = GetServicesByType (byUSN s) (clock s) upnpWANIPConnectionURN
            in if length svc > 0 then s\<lparr>l_ok := False, l_mode := modeUPnP, pc := LoopTop\<rparr>
               else s\<lparr>l_ok := False, pc := AfterAttempt\<rparr>))"

text \<open>\<open>tryUPnP\<close> has returned \<open>b\<close>: the rest of the case \<open>modeUPnP\<close>.\<close>

definition tryUPnP_returns :: "bool \<Rightarrow> ctl \<Rightarrow> ctl" where
  "tryUPnP_returns b s = s\<lparr>l_ok := b, l_d := 1 * Hour, pc := AfterAttempt\<rparr>"

text \<open>The head of the loop, up to the start of the attempt.\<close>

definition step_LoopTop :: "ctl \<Rightarrow> ctl" where
  "step_LoopTop s =
     (if l_aborting s \<and> \<not> isActive (obj s) (clock s) then s\<lparr>pc := Returned\<rparr>
      else (case l_mode s of
              modeNATPMP \<Rightarrow> s\<lparr>pc := NatGW 0\<rparr>
            | modeUPnP \<Rightarrow>
                (let svcs = GetServicesByType (byUSN s) (clock s) upnpWANIPConnectionURN
                 in if length svcs = 0 then s\<lparr>l_mode := modeNATPMP, pc := LoopTop\<rparr>
                    else s\<lparr>pc := UpSvc svcs\<rparr>)))"

text \<open>
  \<open>tryNATPMP\<close> at gateway number \<open>i\<close>: past the last gateway it returns false; otherwise
  \<open>tryNATPMPGW\<close> starts, up to its call of \<open>natpmp.Map\<close>.
\<close>

definition step_NatGW :: "nat \<Rightarrow> ctl \<Rightarrow> ctl" where
  "step_NatGW i s =
     (if i < length (gwa s)
      then (if l_aborting s \<and> \<not> isActive (obj s) (clock s) then tryNATPMP_returns True s
            else s\<lparr>pc := NatMapCall i (gwa s ! i)
                          (if \<not> l_aborting s then Lifetime (cfg (obj s)) else 0)\<rparr>)
      else tryNATPMP_returns False s)"

text \<open>\<open>natpmp.Map\<close> has returned \<open>r\<close>.\<close>

definition step_NatMapCall ::
  "nat \<Rightarrow> IP \<Rightarrow> Duration \<Rightarrow> (16 word \<times> Duration) result \<Rightarrow> ctl \<Rightarrow> ctl" where
  "step_NatMapCall i gw preferredLifetime r s =
     (case r of
        Panic \<Rightarrow> s\<lparr>pc := Crashed\<rparr>
      | Err e \<Rightarrow> s\<lparr>trace := trace s @ [ActNatMap gw preferredLifetime r], pc := NatGW (i + 1)\<rparr>
      | Ok (externalPort, actualLifetime) \<Rightarrow>
          (let s1 = s\<lparr>trace := trace s @ [ActNatMap gw preferredLifetime r],
                       obj := (obj s)\<lparr>cfg := (cfg (obj s))\<lparr>ExternalPort := externalPort,
                                                            Lifetime := actualLifetime\<rparr>\<rparr>\<rparr>
           in if preferredLifetime = 0 then tryNATPMP_returns True s1
              else s1\<lparr>pc := NatIPCall i gw (Add (clock s) actualLifetime)\<rparr>))"

text \<open>\<open>natpmp.GetExternalAddr\<close> has returned \<open>r\<close>.\<close>

definition step_NatIPCall ::
  "nat \<Rightarrow> IP \<Rightarrow> Time \<Rightarrow> (byte \<times> byte \<times> byte \<times> byte) result \<Rightarrow> ctl \<Rightarrow> ctl" where
  "step_NatIPCall i gw expire r s =
     (case r of
        Panic \<Rightarrow> s\<lparr>pc := Crashed\<rparr>
      | Err e \<Rightarrow>
          tryNATPMP_returns True
            (s\<lparr>trace := trace s @ [ActNatGetExternalAddr gw r],
               obj := (obj s)\<lparr>expireTime := expire\<rparr>\<rparr>)
      | Ok extIP \<Rightarrow>
          tryNATPMP_returns True
            (s\<lparr>trace := trace s @ [ActNatGetExternalAddr gw r],
               obj := (obj s)\<lparr>externalAddr := IPv4_String extIP, expireTime := expire\<rparr>\<rparr>))"

text \<open>
  \<open>tryUPnP\<close> with the services \<open>svcs\<close> left: with none left it returns false; otherwise
  \<open>tryUPnPSvc\<close> starts, up to its call of \<open>upnp.Unmap\<close> or \<open>upnp.Map\<close>.
\<close>

definition step_UpSvc :: "Service list \<Rightarrow> ctl \<Rightarrow> ctl" where
  "step_UpSvc svcs s =
     (case svcs of
        [] \<Rightarrow> tryUPnP_returns False s
      | svc # rest \<Rightarrow>
          (if l_aborting s
           then (if \<not> isActive (obj s) (clock s) then tryUPnP_returns True s
                 else s\<lparr>pc := UpUnmapCall svc rest\<rparr>)
           else s\<lparr>pc := UpMapCall svc rest\<rparr>))"

definition step_UpUnmapCall :: "Service \<Rightarrow> Service list \<Rightarrow> unit result \<Rightarrow> ctl \<Rightarrow> ctl" where
  "step_UpUnmapCall svc rest r s =
     (case r of
        Panic \<Rightarrow> s\<lparr>pc := Crashed\<rparr>
      | Err e \<Rightarrow> s\<lparr>trace := trace s @ [ActUpnpUnmap (Location svc) r], pc := UpSvc rest\<rparr>
      | Ok u \<Rightarrow> tryUPnP_returns True (s\<lparr>trace := trace s @ [ActUpnpUnmap (Location svc) r]\<rparr>))"

definition step_UpMapCall :: "Service \<Rightarrow> Service list \<Rightarrow> 16 word result \<Rightarrow> ctl \<Rightarrow> ctl" where
  "step_UpMapCall svc rest r s =
     (case r of
        Panic \<Rightarrow> s\<lparr>pc := Crashed\<rparr>
      | Err e \<Rightarrow> s\<lparr>trace := trace s @ [ActUpnpMap (Location svc) r], pc := UpSvc rest\<rparr>
      | Ok actualExternalPort \<Rightarrow>
          s\<lparr>trace := trace s @ [ActUpnpMap (Location svc) r],
            obj := (obj s)\<lparr>expireTime := Add (clock s) (Lifetime (cfg (obj s))),
                            cfg := (cfg (obj s))\<lparr>ExternalPort := actualExternalPort\<rparr>\<rparr>,
            pc := UpIPCall svc\<rparr>)"

definition step_UpIPCall :: "Service \<Rightarrow> string result \<Rightarrow> ctl \<Rightarrow> ctl" where
  "step_UpIPCall svc r s =
     (case r of
        Panic \<Rightarrow> s\<lparr>pc := Crashed\<rparr>
      | Err e \<Rightarrow>
          tryUPnP_returns True (s\<lparr>trace := trace s @ [ActUpnpGetExternalAddr (Location svc) r]\<rparr>)
      | Ok extIP \<Rightarrow>
          tryUPnP_returns True
            (s\<lparr>trace := trace s @ [ActUpnpGetExternalAddr (Location svc) r],
               obj := (obj s)\<lparr>externalAddr := extIP\<rparr>\<rparr>))"

text \<open>After the attempt: the teardown exit, the backoff and the notification.\<close>

definition step_AfterAttempt :: "ctl \<Rightarrow> ctl" where
  "step_AfterAttempt s =
     (if l_aborting s
      then s\<lparr>obj := setInactive (obj s) (clock s), trace := trace s @ [ActNotify],
             pc := Returned\<rparr>
      else if l_ok s
      then s\<lparr>obj := notify ((obj s)\<lparr>cfg := (cfg (obj s))\<lparr>Backoff := Reset (Backoff (cfg (obj s)))\<rparr>\<rparr>)
                      (clock s),
             trace := trace s @ [ActReset, ActNotify],
             pc := Sleeping (Add (clock s) (l_d s))\<rparr>
      else (case NextDelay (Backoff (cfg (obj s))) of (d, b) \<Rightarrow>
              if d = 0
              then s\<lparr>obj := setInactive ((obj s)\<lparr>cfg := (cfg (obj s))\<lparr>Backoff := b\<rparr>\<rparr>) (clock s),
                     l_d := d, trace := trace s @ [ActNextDelay d, ActNotify], pc := Returned\<rparr>
              else s\<lparr>obj := notify ((obj s)\<lparr>cfg := (cfg (obj s))\<lparr>Backoff := b\<rparr>\<rparr>) (clock s),
                     l_d := d, trace := trace s @ [ActNextDelay d, ActNotify],
                     pc := Sleeping (Add (clock s) d)\<rparr>))"

text \<open>
  The \<open>select\<close>: the abort case can fire once \<open>abortChan\<close> is closed, the timer case once
  the delay has passed.
\<close>

definition step_Sleeping :: "Time \<Rightarrow> response \<Rightarrow> ctl \<Rightarrow> ctl" where
  "step_Sleeping wake r s =
     (case r of
        AbortFires \<Rightarrow>
          if abortChan (obj s) = ChanClosed then s\<lparr>l_aborting := True, pc := LoopTop\<rparr> else s
      | TimerFires \<Rightarrow> if wake \<le> clock s then s\<lparr>pc := LoopTop\<rparr> else s
      | _ \<Rightarrow> s)"

text \<open>
  One step of the controller. A response that does not answer the call in flight leaves
  the state as it is.
\<close>

definition ctl_step :: "response \<Rightarrow> ctl \<Rightarrow> ctl" where
  "ctl_step r s =
     (case pc s of
        LoopTop \<Rightarrow> step_LoopTop s
      | NatGW i \<Rightarrow> step_NatGW i s
      | NatMapCall i gw pl \<Rightarrow> (case r of MapResp x \<Rightarrow> step_NatMapCall i gw pl x s | _ \<Rightarrow> s)
      | NatIPCall i gw expire \<Rightarrow> (case r of IPResp x \<Rightarrow> step_NatIPCall i gw expire x s | _ \<Rightarrow> s)
      | UpSvc svcs \<Rightarrow> step_UpSvc svcs s
      | UpUnmapCall svc rest \<Rightarrow>
          (case r of UpUnmapResp x \<Rightarrow> step_UpUnmapCall svc rest x s | _ \<Rightarrow> s)
      | UpMapCall svc rest \<Rightarrow> (case r of UpMapResp x \<Rightarrow> step_UpMapCall svc rest x s | _ \<Rightarrow> s)
      | UpIPCall svc \<Rightarrow> (case r of UpIPResp x \<Rightarrow> step_UpIPCall svc x s | _ \<Rightarrow> s)
      | AfterAttempt \<Rightarrow> step_AfterAttempt s
      | Sleeping wake \<Rightarrow> step_Sleeping wake r s
      | Returned \<Rightarrow> s
      | Crashed \<Rightarrow> s)"

text \<open>
  One event of the whole system: time passes (never backwards), a caller calls \<open>Delete\<close>,
  a consumer takes a notification from the channel, the registry records an SSDP event,
  or the controller takes a step. A panic ends everything.
\<close>

definition step :: "event \<Rightarrow> ctl \<Rightarrow> ctl" where
  "step e s =
     (if pc s = Crashed then s
      else (case e of
              Tick dt \<Rightarrow> (if 0 \<le> dt then s\<lparr>clock := Add (clock s) dt\<rparr> else s)
            | CallDelete \<Rightarrow>
                (case Delete (obj s) of Ok m' \<Rightarrow> s\<lparr>obj := m'\<rparr> | Err x \<Rightarrow> s\<lparr>pc := Crashed\<rparr>
                 | Panic \<Rightarrow> s\<lparr>pc := Crashed\<rparr>)
            | Receive \<Rightarrow> s\<lparr>obj := (obj s)\<lparr>notifyChan := notifyChan (obj s) - 1\<rparr>\<rparr>
            | SsdpEvent ev \<Rightarrow> s\<lparr>byUSN := register ev (clock s) (byUSN s)\<rparr>
            | Step r \<Rightarrow> ctl_step r s))"

fun run :: "event list \<Rightarrow> ctl \<Rightarrow> ctl" where
  "run [] s = s"
| "run (e # es) s = run es (step e s)"

section \<open>Predicates on controller states\<close>



text \<open>
  \<open>all_failed gs tr\<close>: the last entries of the trace \<open>tr\<close> are calls of \<open>natpmp.Map\<close> on the
  gateways \<open>gs\<close>, in this order, each of which returned an error.
\<close>

definition is_failed_Map :: "IP \<Rightarrow> action \<Rightarrow> bool" where
  "is_failed_Map g a =
     (case a of
        ActNatMap g' pl r \<Rightarrow> g' = g \<and> (case r of Err e \<Rightarrow> True | _ \<Rightarrow> False)
      | _ \<Rightarrow> False)"

definition all_failed :: "IP list \<Rightarrow> action list \<Rightarrow> bool" where
  "all_failed gs tr =
     (length gs \<le> length tr \<and> list_all2 is_failed_Map gs (drop (length tr - length gs) tr))"

definition gw_inv :: "ctl \<Rightarrow> bool" where
  "gw_inv s =
     (case pc s of
        NatGW i \<Rightarrow> i \<le> length (gwa s) \<and> all_failed (take i (gwa s)) (trace s)
      | NatMapCall i gw pl \<Rightarrow>
          i < length (gwa s) \<and> gw = gwa s ! i \<and> all_failed (take i (gwa s)) (trace s)
      | _ \<Rightarrow> True)"

section \<open>Example inputs\<close>

definition example_cfg :: Config where
  "example_cfg =
     \<lparr>Protocol = 6, Name = ''http'', InternalPort = 8080, ExternalPort = 8080,
      Lifetime = 2 * Hour,
      Backoff = \<lparr>MaxTries = 3, InitialDelay = 5 * Second, MaxDelay = 120 * Second,
                 MaxDelayAfterTries = 10, CurrentTry = 0\<rparr>\<rparr>"

definition gw1 :: IP where
  "gw1 = [192, 168, 0, 1]"

text \<open>A network that never answers.\<close>

definition black_hole :: network where
  "black_hole = \<lparr>dial_ok = True, attempts = (\<lambda>i. Reads RecvTimeout)\<rparr>"

text \<open>
  A network on which the first datagram read comes from another host and the second is
  the gateway's answer to an external-address request.
\<close>

definition stray_then_reply :: network where
  "stray_then_reply =
     \<lparr>dial_ok = True,
      attempts = (\<lambda>i. if i = 0
         then Reads (RecvDatagram \<lparr>elems = [0, 128, 0, 0, 0, 0, 0, 9, 192, 0, 2, 7], spare = []\<rparr>
                       [192, 168, 0, 77] 5351)
         else Reads (RecvDatagram \<lparr>elems = [0, 128, 0, 0, 0, 0, 0, 9, 192, 0, 2, 7], spare = []\<rparr>
                       [192, 168, 0, 1] 5351))\<rparr>"

text \<open>
  A gateway that answers an external-address request with the header and the seconds
  field only: 8 bytes, 4 of them payload.
\<close>

definition short_reply :: "byte list \<Rightarrow> network" where
  "short_reply sp =
     \<lparr>dial_ok = True,
      attempts = (\<lambda>i. Reads (RecvDatagram \<lparr>elems = [0, 128, 0, 0, 0, 0, 0, 9], spare = sp\<rparr>
                             [192, 168, 0, 1] 5351))\<rparr>"

text \<open>
  A registry with two services of the same type: the first was last seen 179 seconds
  before the time \<open>1000 * Second\<close>, the second exactly 180 seconds before it.
\<close>

definition svc_fresh :: Service where
  "svc_fresh = \<lparr>Location = ''http://192.168.0.1:5000/desc.xml'', ST = ''urn:x'', USN = ''uuid:1'',
                 LastSeen = 821 * Second\<rparr>"

definition svc_boundary :: Service where
  "svc_boundary = \<lparr>Location = ''http://192.168.0.2:5000/desc.xml'', ST = ''urn:x'',
                    USN = ''uuid:2'', LastSeen = 820 * Second\<rparr>"

definition example_registry :: registry where
  "example_registry = [(''uuid:1'', svc_fresh), (''uuid:2'', svc_boundary)]"



text \<open>The same, with a WANIPConnection service in the registry, last seen 10 s earlier.\<close>

definition igd_registry :: registry where
  "igd_registry =
     [(''uuid:igd'',
       \<lparr>Location = ''http://192.168.0.1:5000/rootDesc.xml'',
        ST = ''urn:schemas-upnp-org:service:WANIPConnection:1'', USN = ''uuid:igd'',
        LastSeen = 990 * Second\<rparr>)]"

definition example_start_igd :: ctl where
  "example_start_igd = init example_cfg [gw1] igd_registry (1000 * Second)"

text \<open>
  A gateway whose device description has a WANPPPConnection service only, and one whose
  description cannot be fetched.
\<close>

definition ppp_device :: xDevice where
  "ppp_device =
     XDevice []
       [XDevice [\<lparr>ServiceType = ''urn:schemas-upnp-org:service:WANPPPConnection:1'',
                  ServiceID = ''urn:upnp-org:serviceId:WANPPPConn1'',
                  ControlURL = \<lparr>URL = '''', OK = False, Str = ''/ctl/PPPConn''\<rparr>\<rparr>] []]"

definition ppp_web :: web where
  "ppp_web =
     \<lparr>url_Parse = Some, ResolveReference = (\<lambda>base u. base @ u),
      http_Get = (\<lambda>u. GetStatus 200 (Some ppp_device)), dial_local = (\<lambda>u. Some ''192.168.0.2''),
      http_Post = (\<lambda>u m b. PostStatus 200 (ReplyAddress ''192.0.2.7'')), ParseIP = Some,
      Int31n = (\<lambda>n. 0)\<rparr>"

definition down_web :: web where
  "down_web = ppp_web\<lparr>http_Get := (\<lambda>u. GetFails)\<rparr>"

section \<open>Properties\<close>

subsection \<open>Helper lemmas\<close>

lemma FormatUint_nonempty: "FormatUint n \<noteq> []"
  by (subst FormatUint.simps) simp

lemma JoinHostPort_nonempty: "JoinHostPort h p \<noteq> []"
  by (simp add: JoinHostPort_def)

lemma Delete_inv:
  "aborted m = (abortChan m = ChanClosed) \<Longrightarrow>
   \<exists>m'. Delete m = Ok m' \<and> aborted m' \<and> abortChan m' = ChanClosed \<and> Delete m' = Ok m'"
  by (cases "abortChan m") (auto simp: Delete_def close_chan_def)

lemma Delete_times_aborted: "aborted m \<Longrightarrow> Delete_times n m = Ok m"
  by (induction n) (simp_all add: Delete_def)

lemma loop_exhausted:
  "fst (NextDelay rconf) = 0 \<Longrightarrow>
   makeRequest_loop rconf net i dst opc msg log = (Err ErrTimeout, log)"
  by (subst makeRequest_loop.simps) (simp add: case_prod_beta)

lemma loop_timeout:
  "NextDelay rconf = (maxtime, rconf') \<Longrightarrow> maxtime \<noteq> 0 \<Longrightarrow> net i = Reads RecvTimeout \<Longrightarrow>
   makeRequest_loop rconf net i dst opc msg log =
     makeRequest_loop rconf' net (i + 1) dst opc msg (log @ [SetDeadline maxtime, Write msg])"
  by (subst makeRequest_loop.simps) simp

lemma loop_discard:
  "NextDelay rconf = (maxtime, rconf') \<Longrightarrow> maxtime \<noteq> 0 \<Longrightarrow>
   net i = Reads (RecvDatagram res ip port) \<Longrightarrow>
   \<not> IP_Equal ip dst \<or> port \<noteq> hostToGatewayPort \<or> length (elems res) < 4
     \<or> elems res ! 0 \<noteq> 0 \<or> elems res ! 1 \<noteq> (128 OR opc) \<Longrightarrow>
   makeRequest_loop rconf net i dst opc msg log =
     makeRequest_loop rconf' net (i + 1) dst opc msg (log @ [SetDeadline maxtime, Write msg])"
  by (subst makeRequest_loop.simps) auto

lemma loop_accept:
  "NextDelay rconf = (maxtime, rconf') \<Longrightarrow> maxtime \<noteq> 0 \<Longrightarrow>
   net i = Reads (RecvDatagram res ip port) \<Longrightarrow>
   \<not> (\<not> IP_Equal ip dst \<or> port \<noteq> hostToGatewayPort \<or> length (elems res) < 4
     \<or> elems res ! 0 \<noteq> 0 \<or> elems res ! 1 \<noteq> (128 OR opc)) \<Longrightarrow>
   makeRequest_loop rconf net i dst opc msg log =
     (if Uint16 (drop 2 (elems res)) \<noteq> 0 then Err (ErrGateway (Uint16 (drop 2 (elems res))))
      else slice_from res 4, log @ [SetDeadline maxtime, Write msg])"
  by (subst makeRequest_loop.simps) auto

lemma loop_fail:
  "NextDelay rconf = (maxtime, rconf') \<Longrightarrow> maxtime \<noteq> 0 \<Longrightarrow>
   net i = DeadlineFails \<or> net i = WriteFails \<or> net i = Reads RecvError \<Longrightarrow>
   makeRequest_loop rconf net i dst opc msg log =
     (Err ErrIO, log @ (if net i = DeadlineFails then [SetDeadline maxtime]
                        else [SetDeadline maxtime, Write msg]))"
  by (subst makeRequest_loop.simps) auto

lemma NextDelay_measure:
  "NextDelay rconf = (maxtime, rconf') \<Longrightarrow> maxtime \<noteq> 0 \<Longrightarrow>
   MaxTries rconf' - CurrentTry rconf' < MaxTries rconf - CurrentTry rconf"
  by (auto simp: NextDelay_def split: if_splits)

lemma attempt_cases:
  obtains (fail) "a = DeadlineFails \<or> a = WriteFails \<or> a = Reads RecvError"
  | (timeout) "a = Reads RecvTimeout"
  | (datagram) res ip port where "a = Reads (RecvDatagram res ip port)"
proof (cases a)
  case (Reads r)
  then show ?thesis using that by (cases r) auto
qed (use that in auto)

text \<open>What a transaction records extends what was recorded before it.\<close>

lemma loop_log_prefix: "\<exists>tl. snd (makeRequest_loop rconf net i dst opc msg log) = log @ tl"
proof (induction "MaxTries rconf - CurrentTry rconf" arbitrary: rconf i log rule: less_induct)
  case less
  obtain maxtime rconf' where nd: "NextDelay rconf = (maxtime, rconf')"
    by (cases "NextDelay rconf")
  show ?case
  proof (cases "maxtime = 0")
    case True
    then show ?thesis using nd loop_exhausted [of rconf net i dst opc msg log] by simp
  next
    case nz: False
    have "\<exists>tl. snd (makeRequest_loop rconf' net (i + 1) dst opc msg
                      (log @ [SetDeadline maxtime, Write msg]))
            = (log @ [SetDeadline maxtime, Write msg]) @ tl"
      by (rule less) (rule NextDelay_measure [OF nd nz])
    then have rec: "\<exists>tl. snd (makeRequest_loop rconf' net (i + 1) dst opc msg
                      (log @ [SetDeadline maxtime, Write msg])) = log @ tl"
      by auto
    show ?thesis
    proof (cases "net i" rule: attempt_cases)
      case fail
      then show ?thesis
        using loop_fail [of rconf maxtime rconf' net i dst opc msg log] nd nz by auto
    next
      case timeout
      then show ?thesis
        using loop_timeout [of rconf maxtime rconf' net i dst opc msg log] nd nz rec by simp
    next
      case (datagram res ip port)
      show ?thesis
      proof (cases "\<not> IP_Equal ip dst \<or> port \<noteq> hostToGatewayPort \<or> length (elems res) < 4
                     \<or> elems res ! 0 \<noteq> 0 \<or> elems res ! 1 \<noteq> (128 OR opc)")
        case True
        then show ?thesis
          using loop_discard [of rconf maxtime rconf' net i res ip port dst opc msg log]
            nd nz datagram rec by simp
      next
        case False
        then show ?thesis
          using loop_accept [of rconf maxtime rconf' net i res ip port dst opc msg log]
            nd nz datagram by simp
      qed
    qed
  qed
qed

lemma loop_first_write:
  assumes "fst (NextDelay rconf) \<noteq> 0" and "net i \<noteq> DeadlineFails"
  shows "\<exists>tl. snd (makeRequest_loop rconf net i dst opc msg log) =
           log @ [SetDeadline (fst (NextDelay rconf)), Write msg] @ tl"
proof -
  obtain maxtime rconf' where nd: "NextDelay rconf = (maxtime, rconf')"
    by (cases "NextDelay rconf")
  with assms have nz: "maxtime \<noteq> 0" by simp
  obtain tl where rec: "snd (makeRequest_loop rconf' net (i + 1) dst opc msg
                      (log @ [SetDeadline maxtime, Write msg]))
            = (log @ [SetDeadline maxtime, Write msg]) @ tl"
    using loop_log_prefix by blast
  show ?thesis
  proof (cases "net i" rule: attempt_cases)
    case fail
    then show ?thesis
      using loop_fail [of rconf maxtime rconf' net i dst opc msg log] nd nz assms by auto
  next
    case timeout
    then show ?thesis
      using loop_timeout [of rconf maxtime rconf' net i dst opc msg log] nd nz rec by simp
  next
    case (datagram res ip port)
    show ?thesis
    proof (cases "\<not> IP_Equal ip dst \<or> port \<noteq> hostToGatewayPort \<or> length (elems res) < 4
                   \<or> elems res ! 0 \<noteq> 0 \<or> elems res ! 1 \<noteq> (128 OR opc)")
      case True
      then show ?thesis
        using loop_discard [of rconf maxtime rconf' net i res ip port dst opc msg log]
          nd nz datagram rec by simp
    next
      case False
      then show ?thesis
        using loop_accept [of rconf maxtime rconf' net i res ip port dst opc msg log]
          nd nz datagram by simp
    qed
  qed
qed

lemma loop_first_deadline:
  assumes "fst (NextDelay rconf) \<noteq> 0"
  shows "\<exists>tl. snd (makeRequest_loop rconf net i dst opc msg log) =
           log @ [SetDeadline (fst (NextDelay rconf))] @ tl"
proof (cases "net i = DeadlineFails")
  case True
  obtain maxtime rconf' where nd: "NextDelay rconf = (maxtime, rconf')"
    by (cases "NextDelay rconf")
  with assms have nz: "maxtime \<noteq> 0" by simp
  show ?thesis
    using loop_fail [of rconf maxtime rconf' net i dst opc msg log] nd nz True by simp
next
  case False
  from loop_first_write [of rconf net i dst opc msg log] assms False show ?thesis by auto
qed

text \<open>No path through the transaction loop produces the short-response error.\<close>

lemma loop_never_short:
  "fst (makeRequest_loop rconf net i dst opc msg log) \<noteq> Err ErrShortResponse"
proof (induction "MaxTries rconf - CurrentTry rconf" arbitrary: rconf i log rule: less_induct)
  case less
  obtain maxtime rconf' where nd: "NextDelay rconf = (maxtime, rconf')"
    by (cases "NextDelay rconf")
  show ?case
  proof (cases "maxtime = 0")
    case True
    then show ?thesis using nd loop_exhausted [of rconf net i dst opc msg log] by simp
  next
    case nz: False
    have rec: "fst (makeRequest_loop rconf' net (i + 1) dst opc msg
                      (log @ [SetDeadline maxtime, Write msg])) \<noteq> Err ErrShortResponse"
      by (rule less) (rule NextDelay_measure [OF nd nz])
    show ?thesis
    proof (cases "net i" rule: attempt_cases)
      case fail
      then show ?thesis
        using loop_fail [of rconf maxtime rconf' net i dst opc msg log] nd nz by auto
    next
      case timeout
      then show ?thesis
        using loop_timeout [of rconf maxtime rconf' net i dst opc msg log] nd nz rec by simp
    next
      case (datagram res ip port)
      show ?thesis
      proof (cases "\<not> IP_Equal ip dst \<or> port \<noteq> hostToGatewayPort \<or> length (elems res) < 4
                     \<or> elems res ! 0 \<noteq> 0 \<or> elems res ! 1 \<noteq> (128 OR opc)")
        case True
        then show ?thesis
          using loop_discard [of rconf maxtime rconf' net i res ip port dst opc msg log]
            nd nz datagram rec by simp
      next
        case False
        then show ?thesis
          using loop_accept [of rconf maxtime rconf' net i res ip port dst opc msg log]
            nd nz datagram by (simp add: slice_from_def)
      qed
    qed
  qed
qed

lemma GetServicesByType_member:
  "(k, v) \<in> set reg \<Longrightarrow> ST v = st \<Longrightarrow>
   (v \<in> set (GetServicesByType reg now st)) = (now - LastSeen v < 3 * BroadcastInterval)"
  by (simp add: GetServicesByType_def After_def Add_def Let_def) (auto simp: image_iff)

subsection \<open>The external address of a mapping\<close>

text \<open>
  C1, as the claim states it, fails: a mapping whose expiry lies in the future and whose
  external port is 8080, but whose external IP was never learned, has the non-empty
  external address \<open>:8080\<close>. A non-empty result therefore does not imply that the
  external IP is known.
\<close>

theorem ExternalAddr_unknown_ip_counterexample:
  "\<not> (ExternalAddr \<lparr>cfg = example_cfg, expireTime = 10, aborted = False, abortChan = ChanOpen,
                      notifyChan = 0, externalAddr = '''', prevValue = ''''\<rparr> 5 \<noteq> ''''
       \<longrightarrow> externalAddr \<lparr>cfg = example_cfg, expireTime = 10, aborted = False,
                          abortChan = ChanOpen, notifyChan = 0, externalAddr = '''',
                          prevValue = ''''\<rparr> \<noteq> '''')"
  by (simp add: ExternalAddr_def isActive_def IsZero_def After_def example_cfg_def
      JoinHostPort_def)

text \<open>
  C1, amended. \<open>ExternalAddr\<close> returns the empty string when the mapping is inactive (its
  expiry is unset or not in the future) or its external port is 0. Otherwise it returns
  the external IP joined with the port: \<open>ip:port\<close> for an IP without a colon, and
  \<open>:port\<close> when the external IP is unknown. A non-empty result holds exactly when the
  expiry is set and in the future and the external port is not 0; it says nothing about
  the external IP.
\<close>

theorem ExternalAddr_contract:
  "(ExternalAddr m now =
      (if expireTime m \<noteq> 0 \<and> now < expireTime m \<and> ExternalPort (cfg m) \<noteq> 0
       then JoinHostPort (externalAddr m) (FormatUint (unat (ExternalPort (cfg m))))
       else ''''))
   \<and> ((ExternalAddr m now \<noteq> '''') =
        (expireTime m \<noteq> 0 \<and> now < expireTime m \<and> ExternalPort (cfg m) \<noteq> 0))
   \<and> (ExternalAddr m now \<noteq> '''' \<and> externalAddr m = '''' \<longrightarrow>
        ExternalAddr m now = '':'' @ FormatUint (unat (ExternalPort (cfg m))))
   \<and> (ExternalAddr m now \<noteq> '''' \<and> CHR '':'' \<notin> set (externalAddr m) \<longrightarrow>
        ExternalAddr m now = externalAddr m @ '':'' @ FormatUint (unat (ExternalPort (cfg m))))"
  by (simp add: ExternalAddr_def isActive_def IsZero_def After_def JoinHostPort_def)

theorem ExternalAddr_contract_witness:
  "ExternalAddr \<lparr>cfg = example_cfg, expireTime = 10, aborted = False, abortChan = ChanOpen,
                 notifyChan = 0, externalAddr = '''', prevValue = ''''\<rparr> 5 = '':8080''
   \<and> ExternalAddr \<lparr>cfg = example_cfg, expireTime = 10, aborted = False, abortChan = ChanOpen,
                 notifyChan = 0, externalAddr = ''192.0.2.7'', prevValue = ''''\<rparr> 5
       = ''192.0.2.7:8080''
   \<and> ExternalAddr \<lparr>cfg = example_cfg, expireTime = 10, aborted = False, abortChan = ChanOpen,
                 notifyChan = 0, externalAddr = ''192.0.2.7'', prevValue = ''''\<rparr> 10 = ''''"
  by (simp add: ExternalAddr_contract [THEN conjunct1] example_cfg_def JoinHostPort_def
      digit_char_def)

subsection \<open>Delete\<close>

text \<open>
  C9. \<open>Delete\<close> is idempotent. In a mapping whose \<open>aborted\<close> flag agrees with the state
  of \<open>abortChan\<close> (as in every mapping that \<open>New\<close> creates and only \<open>Delete\<close> changes),
  any number \<open>n \<ge> 1\<close> of calls leaves the state that one call leaves, a further call
  changes nothing, and no call panics: the channel is never closed a second time.
\<close>

theorem Delete_idempotent:
  "aborted m = (abortChan m = ChanClosed) \<and> 1 \<le> n \<longrightarrow>
     (\<exists>m'. Delete m = Ok m' \<and> Delete_times n m = Ok m' \<and> Delete m' = Ok m'
            \<and> aborted m' \<and> abortChan m' = ChanClosed)"
proof (intro impI, elim conjE)
  assume inv: "aborted m = (abortChan m = ChanClosed)" and n: "1 \<le> n"
  from Delete_inv [OF inv] obtain m' where
    m': "Delete m = Ok m'" "aborted m'" "abortChan m' = ChanClosed" "Delete m' = Ok m'"
    by blast
  from n obtain k where k: "n = Suc k" by (cases n) auto
  have "Delete_times n m = Ok m'"
    using m' Delete_times_aborted [of m' k] by (simp add: k)
  with m' show "\<exists>m'. Delete m = Ok m' \<and> Delete_times n m = Ok m' \<and> Delete m' = Ok m'
            \<and> aborted m' \<and> abortChan m' = ChanClosed"
    by blast
qed

theorem Delete_idempotent_witness:
  "\<exists>m'. Delete (new_mapping example_cfg) = Ok m'
      \<and> Delete_times 2 (new_mapping example_cfg) = Ok m' \<and> Delete m' = Ok m'
      \<and> aborted m' \<and> abortChan m' = ChanClosed"
  using Delete_idempotent [of "new_mapping example_cfg" 2]
  by (simp add: new_mapping_def)

subsection \<open>The NAT-PMP transaction\<close>

text \<open>
  C5, as the claim states it, fails. When the first datagram read comes from a host that
  is not the gateway, the transaction does not go on reading under the first deadline:
  it takes the next delay from the backoff (500 ms after 250 ms), sets a new deadline and
  writes the request a second time before it reads the gateway's answer.
\<close>

theorem makeRequest_discard_counterexample:
  "makeRequest stray_then_reply gw1 opcGetExternalAddr [] =
     (Ok \<lparr>elems = [0, 0, 0, 9, 192, 0, 2, 7], spare = []\<rparr>,
      [SetDeadline (250 * Millisecond), Write [0, 0],
       SetDeadline (500 * Millisecond), Write [0, 0]])"
  by code_simp

text \<open>
  C5, amended. In a pass of the transaction loop that reads a datagram whose source
  address or port differs from (gateway, 5351), whose length is under 4 bytes, whose
  version byte is not 0 or whose opcode is not the request's opcode with bit \<open>0x80\<close> set,
  the datagram is discarded and the loop goes to its next pass, as after a read timeout:
  with the backoff exhausted the transaction fails with the timeout error, and otherwise
  the next delay is taken from the backoff, a new deadline set from it and, unless setting
  the deadline fails, the request written again.
\<close>

theorem makeRequest_discard:
  assumes "NextDelay rconf = (maxtime, rconf')" and "maxtime \<noteq> 0"
    and "net i = Reads (RecvDatagram res ip port)"
    and "\<not> IP_Equal ip dst \<or> port \<noteq> hostToGatewayPort \<or> length (elems res) < 4
          \<or> elems res ! 0 \<noteq> 0 \<or> elems res ! 1 \<noteq> (128 OR opc)"
  shows "makeRequest_loop rconf net i dst opc msg log =
           makeRequest_loop rconf' net (i + 1) dst opc msg (log @ [SetDeadline maxtime, Write msg])
         \<and> (fst (NextDelay rconf') = 0 \<longrightarrow>
              makeRequest_loop rconf net i dst opc msg log =
                (Err ErrTimeout, log @ [SetDeadline maxtime, Write msg]))
         \<and> (fst (NextDelay rconf') \<noteq> 0 \<longrightarrow>
              (\<exists>tl. snd (makeRequest_loop rconf net i dst opc msg log) =
                 log @ [SetDeadline maxtime, Write msg, SetDeadline (fst (NextDelay rconf'))] @ tl))
         \<and> (fst (NextDelay rconf') \<noteq> 0 \<and> net (i + 1) \<noteq> DeadlineFails \<longrightarrow>
              (\<exists>tl. snd (makeRequest_loop rconf net i dst opc msg log) =
                 log @ [SetDeadline maxtime, Write msg, SetDeadline (fst (NextDelay rconf')),
                        Write msg] @ tl))"
proof -
  let ?log' = "log @ [SetDeadline maxtime, Write msg]"
  have a: "makeRequest_loop rconf net i dst opc msg log =
             makeRequest_loop rconf' net (i + 1) dst opc msg ?log'"
    using loop_discard [of rconf maxtime rconf' net i res ip port dst opc msg log] assms
    by simp
  have c: "makeRequest_loop rconf net i dst opc msg log = (Err ErrTimeout, ?log')"
    if "fst (NextDelay rconf') = 0"
    using a loop_exhausted [OF that, of net "i + 1" dst opc msg ?log'] by simp
  have d: "\<exists>tl. snd (makeRequest_loop rconf net i dst opc msg log) =
             log @ [SetDeadline maxtime, Write msg, SetDeadline (fst (NextDelay rconf'))] @ tl"
    if "fst (NextDelay rconf') \<noteq> 0"
    using a loop_first_deadline [OF that, of net "i + 1" dst opc msg ?log'] by simp
  have e: "\<exists>tl. snd (makeRequest_loop rconf net i dst opc msg log) =
             log @ [SetDeadline maxtime, Write msg, SetDeadline (fst (NextDelay rconf')),
                    Write msg] @ tl"
    if "fst (NextDelay rconf') \<noteq> 0" "net (i + 1) \<noteq> DeadlineFails"
    using a loop_first_write [of rconf' net "i + 1" dst opc msg ?log'] that by simp
  show ?thesis using a c d e by blast
qed

theorem makeRequest_discard_witness:
  "makeRequest_loop (Reset backoff) (attempts stray_then_reply) 0 gw1 0 [0, 0] [] =
     makeRequest_loop ((Reset backoff)\<lparr>CurrentTry := 1\<rparr>) (attempts stray_then_reply) (0 + 1)
       gw1 0 [0, 0] ([] @ [SetDeadline (250 * Millisecond), Write [0, 0]])
   \<and> (\<exists>tl. snd (makeRequest_loop (Reset backoff) (attempts stray_then_reply) 0 gw1 0 [0, 0] []) =
          [] @ [SetDeadline (250 * Millisecond), Write [0, 0], SetDeadline (500 * Millisecond),
                Write [0, 0]] @ tl)"
proof -
  have nd: "NextDelay (Reset backoff) = (250 * Millisecond, (Reset backoff)\<lparr>CurrentTry := 1\<rparr>)"
    by (simp add: NextDelay_def Reset_def backoff_def Millisecond_def)
  have nd': "fst (NextDelay ((Reset backoff)\<lparr>CurrentTry := 1\<rparr>)) = 500 * Millisecond"
    by (simp add: NextDelay_def Reset_def backoff_def Millisecond_def)
  have nz: "250 * Millisecond \<noteq> 0" "500 * Millisecond \<noteq> 0"
    by (simp_all add: Millisecond_def)
  have rd: "attempts stray_then_reply 0 =
      Reads (RecvDatagram \<lparr>elems = [0, 128, 0, 0, 0, 0, 0, 9, 192, 0, 2, 7], spare = []\<rparr>
               [192, 168, 0, 77] 5351)"
    and rd': "attempts stray_then_reply (0 + 1) \<noteq> DeadlineFails"
    by (simp_all add: stray_then_reply_def)
  have src: "\<not> IP_Equal [192, 168, 0, 77] gw1
      \<or> 5351 \<noteq> hostToGatewayPort
      \<or> length (elems \<lparr>elems = [0, 128, 0, 0, 0, 0, 0, 9, 192, 0, 2, 7], spare = []\<rparr>) < 4
      \<or> elems \<lparr>elems = [0, 128, 0, 0, 0, 0, 0, 9, 192, 0, 2, 7], spare = []\<rparr> ! 0 \<noteq> 0
      \<or> elems \<lparr>elems = [0, 128, 0, 0, 0, 0, 0, 9, 192, 0, 2, 7], spare = []\<rparr> ! 1 \<noteq> (128 OR 0)"
    by (simp add: IP_Equal_def gw1_def)
  note th = makeRequest_discard [where msg = "[0, 0]" and log = "[]" and dst = gw1 and opc = 0
      and net = "attempts stray_then_reply" and i = 0 and rconf = "Reset backoff"
      and maxtime = "250 * Millisecond" and rconf' = "(Reset backoff)\<lparr>CurrentTry := 1\<rparr>"
      and res = "\<lparr>elems = [0, 128, 0, 0, 0, 0, 0, 9, 192, 0, 2, 7], spare = []\<rparr>"
      and ip = "[192, 168, 0, 77]" and port = 5351,
      OF nd nz(1) rd src]
  have nz': "fst (NextDelay ((Reset backoff)\<lparr>CurrentTry := 1\<rparr>)) \<noteq> 0"
    using nd' nz(2) by simp
  from th nz' rd' have
    "\<exists>tl. snd (makeRequest_loop (Reset backoff) (attempts stray_then_reply) 0 gw1 0 [0, 0] []) =
       [] @ [SetDeadline (250 * Millisecond), Write [0, 0],
             SetDeadline (fst (NextDelay ((Reset backoff)\<lparr>CurrentTry := 1\<rparr>))), Write [0, 0]] @ tl"
    by blast
  then have e:
    "\<exists>tl. snd (makeRequest_loop (Reset backoff) (attempts stray_then_reply) 0 gw1 0 [0, 0] []) =
       [] @ [SetDeadline (250 * Millisecond), Write [0, 0], SetDeadline (500 * Millisecond),
             Write [0, 0]] @ tl"
    unfolding nd' .
  from th have a:
    "makeRequest_loop (Reset backoff) (attempts stray_then_reply) 0 gw1 0 [0, 0] [] =
       makeRequest_loop ((Reset backoff)\<lparr>CurrentTry := 1\<rparr>) (attempts stray_then_reply) (0 + 1)
         gw1 0 [0, 0] ([] @ [SetDeadline (250 * Millisecond), Write [0, 0]])"
    by blast
  show ?thesis using a e by blast
qed

text \<open>
  C6. Every transaction starts from one backoff structure, a reset copy of the package's
  \<open>backoff\<close> with 9 tries, an initial delay of 250 ms, a maximal delay of 64 s reached
  after 8 doublings. Its successive delays are 250 ms, 500 ms, 1 s, 2 s, 4 s, 8 s, 16 s,
  32 s, 64 s and then the zero duration. Against a gateway that never answers, each of
  these delays is the deadline of one pass and the wait before the request is written
  again; after the ninth the transaction fails with the timeout error.
\<close>

theorem natpmp_backoff_schedule:
  "MaxTries backoff = 9 \<and> InitialDelay backoff = 250 * Millisecond
   \<and> MaxDelay backoff = 64 * Second \<and> MaxDelayAfterTries backoff = 8
   \<and> NextDelays 10 (Reset backoff) =
       [250 * Millisecond, 500 * Millisecond, 1 * Second, 2 * Second, 4 * Second, 8 * Second,
        16 * Second, 32 * Second, 64 * Second, 0]
   \<and> makeRequest black_hole dst opc data =
       (Err ErrTimeout,
        [SetDeadline (250 * Millisecond), Write ([0, opc] @ data),
         SetDeadline (500 * Millisecond), Write ([0, opc] @ data),
         SetDeadline (1 * Second), Write ([0, opc] @ data),
         SetDeadline (2 * Second), Write ([0, opc] @ data),
         SetDeadline (4 * Second), Write ([0, opc] @ data),
         SetDeadline (8 * Second), Write ([0, opc] @ data),
         SetDeadline (16 * Second), Write ([0, opc] @ data),
         SetDeadline (32 * Second), Write ([0, opc] @ data),
         SetDeadline (64 * Second), Write ([0, opc] @ data)])"
proof -
  have cfg: "MaxTries backoff = 9 \<and> InitialDelay backoff = 250 * Millisecond
      \<and> MaxDelay backoff = 64 * Second \<and> MaxDelayAfterTries backoff = 8"
    by (simp add: backoff_def Millisecond_def Second_def)
  have seq: "NextDelays 10 (Reset backoff) =
       [250 * Millisecond, 500 * Millisecond, 1 * Second, 2 * Second, 4 * Second, 8 * Second,
        16 * Second, 32 * Second, 64 * Second, 0]"
    by (simp add: numeral_nat NextDelay_def Reset_def backoff_def Millisecond_def Second_def)
  have run: "makeRequest black_hole dst opc data =
       (Err ErrTimeout,
        [SetDeadline (250 * Millisecond), Write ([0, opc] @ data),
         SetDeadline (500 * Millisecond), Write ([0, opc] @ data),
         SetDeadline (1 * Second), Write ([0, opc] @ data),
         SetDeadline (2 * Second), Write ([0, opc] @ data),
         SetDeadline (4 * Second), Write ([0, opc] @ data),
         SetDeadline (8 * Second), Write ([0, opc] @ data),
         SetDeadline (16 * Second), Write ([0, opc] @ data),
         SetDeadline (32 * Second), Write ([0, opc] @ data),
         SetDeadline (64 * Second), Write ([0, opc] @ data)])"
    by code_simp
  from cfg seq run show ?thesis by blast
qed

theorem natpmp_backoff_schedule_witness:
  "fst (makeRequest black_hole gw1 opcMapTCP []) = Err ErrTimeout
   \<and> length (snd (makeRequest black_hole gw1 opcMapTCP [])) = 18
   \<and> NextDelays 10 (Reset backoff) ! 8 = 64 * Second
   \<and> NextDelays 10 (Reset backoff) ! 9 = 0"
  using natpmp_backoff_schedule [of gw1 opcMapTCP "[]"] by simp

text \<open>
  C7. The code does not do what the claim says for a short payload. When the exchange
  succeeds with payload \<open>r\<close>, \<open>GetExternalAddr\<close> evaluates \<open>r[4:8]\<close> without looking at
  the length of \<open>r\<close>: it panics when the capacity of \<open>r\<close> is below 8 and otherwise returns
  four bytes, which lie beyond the payload when that is shorter than 8 bytes. It never
  returns the short-response error, which \<open>Map\<close> returns for a payload under 12 bytes.
\<close>

theorem natpmp_GetExternalAddr_unchecked:
  "(fst (makeRequest nw gw opcGetExternalAddr []) = Ok r \<longrightarrow>
      natpmp_GetExternalAddr nw gw =
        (if 8 \<le> length (elems r) + length (spare r)
         then Ok \<lparr>elems = take 4 (drop 4 (elems r @ spare r)), spare = drop 8 (elems r @ spare r)\<rparr>
         else Panic))
   \<and> natpmp_GetExternalAddr nw gw \<noteq> Err ErrShortResponse"
proof -
  have "fst (makeRequest nw gw opcGetExternalAddr []) \<noteq> Err ErrShortResponse"
    using loop_never_short by (simp add: makeRequest_def)
  then show ?thesis
    by (auto simp: natpmp_GetExternalAddr_def slice_range_def split: result.splits)
qed

theorem natpmp_GetExternalAddr_unchecked_witness:
  "natpmp_GetExternalAddr (short_reply []) gw1 = Panic
   \<and> natpmp_GetExternalAddr (short_reply [7, 7, 7, 7]) gw1 = Ok \<lparr>elems = [7, 7, 7, 7], spare = []\<rparr>"
proof -
  have 1: "fst (makeRequest (short_reply []) gw1 opcGetExternalAddr []) =
             Ok \<lparr>elems = [0, 0, 0, 9], spare = []\<rparr>"
    by code_simp
  have 2: "fst (makeRequest (short_reply [7, 7, 7, 7]) gw1 opcGetExternalAddr []) =
             Ok \<lparr>elems = [0, 0, 0, 9], spare = [7, 7, 7, 7]\<rparr>"
    by code_simp
  show ?thesis
    using natpmp_GetExternalAddr_unchecked [of "short_reply []" gw1
        "\<lparr>elems = [0, 0, 0, 9], spare = []\<rparr>"]
      natpmp_GetExternalAddr_unchecked [of "short_reply [7, 7, 7, 7]" gw1
        "\<lparr>elems = [0, 0, 0, 9], spare = [7, 7, 7, 7]\<rparr>"] 1 2
    by simp
qed

subsection \<open>The SSDP registry\<close>

text \<open>
  C8. A registry entry whose service type is the queried one is among the services that
  \<open>GetServicesByType\<close> returns exactly when it was last seen less than three broadcast
  intervals of 60 seconds before now; an entry last seen exactly three intervals ago is
  left out.
\<close>

theorem GetServicesByType_fresh:
  "(k, v) \<in> set reg \<and> ST v = st \<longrightarrow>
     ((v \<in> set (GetServicesByType reg now st)) = (now - LastSeen v < 3 * BroadcastInterval))
     \<and> (now - LastSeen v = 3 * BroadcastInterval \<longrightarrow> v \<notin> set (GetServicesByType reg now st))
     \<and> BroadcastInterval = 60 * Second"
proof (intro impI, elim conjE)
  assume a: "(k, v) \<in> set reg" "ST v = st"
  note m = GetServicesByType_member [OF a, of now]
  have b: "BroadcastInterval = 60 * Second" by (simp add: BroadcastInterval_def)
  from m have "now - LastSeen v = 3 * BroadcastInterval \<longrightarrow> v \<notin> set (GetServicesByType reg now st)"
    by simp
  with m b show "((v \<in> set (GetServicesByType reg now st)) = (now - LastSeen v < 3 * BroadcastInterval))
     \<and> (now - LastSeen v = 3 * BroadcastInterval \<longrightarrow> v \<notin> set (GetServicesByType reg now st))
     \<and> BroadcastInterval = 60 * Second"
    by blast
qed

theorem GetServicesByType_fresh_witness:
  "svc_fresh \<in> set (GetServicesByType example_registry (1000 * Second) ''urn:x'')
   \<and> svc_boundary \<notin> set (GetServicesByType example_registry (1000 * Second) ''urn:x'')"
proof -
  have 1: "(''uuid:1'', svc_fresh) \<in> set example_registry \<and> ST svc_fresh = ''urn:x''"
    and 2: "(''uuid:2'', svc_boundary) \<in> set example_registry \<and> ST svc_boundary = ''urn:x''"
    by (simp_all add: example_registry_def svc_fresh_def svc_boundary_def)
  have 3: "1000 * Second - LastSeen svc_fresh < 3 * BroadcastInterval"
    and 4: "1000 * Second - LastSeen svc_boundary = 3 * BroadcastInterval"
    by (simp_all add: svc_fresh_def svc_boundary_def BroadcastInterval_def Second_def)
  from GetServicesByType_fresh [of "''uuid:1''" svc_fresh example_registry "''urn:x''" "1000 * Second"]
    GetServicesByType_fresh [of "''uuid:2''" svc_boundary example_registry "''urn:x''" "1000 * Second"]
    1 2 3 4
  show ?thesis by blast
qed

subsection \<open>Invariants of the controller\<close>
lemmas step_defs = step_LoopTop_def step_NatGW_def step_NatMapCall_def step_NatIPCall_def
  step_UpSvc_def step_UpUnmapCall_def step_UpMapCall_def step_UpIPCall_def
  step_AfterAttempt_def step_Sleeping_def tryNATPMP_returns_def tryUPnP_returns_def




lemma run_append: "run (evs @ evs') s = run evs' (run evs s)"
  by (induction evs arbitrary: s) simp_all







lemma all_failed_Nil: "all_failed [] tr"
  by (simp add: all_failed_def)

lemma all_failed_snoc:
  assumes "all_failed gs tr" and "is_failed_Map g a"
  shows "all_failed (gs @ [g]) (tr @ [a])"
proof -
  from assms(1) have len: "length gs \<le> length tr"
    and all: "list_all2 is_failed_Map gs (drop (length tr - length gs) tr)"
    by (simp_all add: all_failed_def)
  have "drop (length (tr @ [a]) - length (gs @ [g])) (tr @ [a])
          = drop (length tr - length gs) tr @ [a]"
    using len by simp
  moreover have "list_all2 is_failed_Map (gs @ [g]) (drop (length tr - length gs) tr @ [a])"
    using all assms(2) by (simp add: list_all2_appendI)
  ultimately show ?thesis using len by (simp add: all_failed_def)
qed

lemma gwa_ctl_step: "gwa (ctl_step r s) = gwa s"
  unfolding ctl_step_def
  by (cases "pc s")
     (auto simp: step_defs Let_def
           split: if_splits response.splits result.splits prod.splits list.splits mode.splits)

lemma gwa_step: "gwa (step e s) = gwa s"
  by (cases e) (auto simp: step_def gwa_ctl_step split: result.splits)

lemma gw_inv_ctl_step:
  assumes "gw_inv s"
  shows "gw_inv (ctl_step r s)"
proof (cases "pc s")
  case (NatMapCall i gw pl)
  with assms have i: "i < length (gwa s)" and gw: "gw = gwa s ! i"
    and fl: "all_failed (take i (gwa s)) (trace s)"
    by (simp_all add: gw_inv_def)
  have snoc: "all_failed (take (Suc i) (gwa s)) (trace s @ [ActNatMap gw pl (Err e)])" for e
    using all_failed_snoc [OF fl, of "gwa s ! i" "ActNatMap gw pl (Err e)"] i gw
    by (simp add: take_Suc_conv_app_nth is_failed_Map_def)
  show ?thesis
    using NatMapCall i gw fl snoc
    by (auto simp: ctl_step_def gw_inv_def step_defs Let_def
        split: response.splits result.splits prod.splits)
next
  case (NatGW i)
  with assms show ?thesis
    by (auto simp: ctl_step_def gw_inv_def step_defs Let_def)
qed (auto simp: ctl_step_def gw_inv_def step_defs Let_def all_failed_Nil
       split: if_splits response.splits result.splits prod.splits list.splits mode.splits)

lemma step_other:
  assumes "\<forall>r. e \<noteq> Step r"
  shows "(pc (step e s) = pc s \<or> pc (step e s) = Crashed) \<and> trace (step e s) = trace s
    \<and> gwa (step e s) = gwa s \<and> l_mode (step e s) = l_mode s
    \<and> l_aborting (step e s) = l_aborting s"
  using assms by (cases e) (auto simp: step_def split: result.splits)

lemma gw_inv_step:
  assumes "gw_inv s"
  shows "gw_inv (step e s)"
proof (cases "\<exists>r. e = Step r")
  case True
  then show ?thesis using assms by (auto simp: step_def gw_inv_ctl_step)
next
  case False
  then have o: "(pc (step e s) = pc s \<or> pc (step e s) = Crashed) \<and> trace (step e s) = trace s
    \<and> gwa (step e s) = gwa s"
    using step_other [of e s] by simp
  then show ?thesis using assms by (auto simp: gw_inv_def split: place.splits)
qed

lemma gw_inv_init: "gw_inv (init c gws reg t0)"
  by (simp add: gw_inv_def init_def)

lemma gw_inv_run: "gw_inv s \<Longrightarrow> gw_inv (run evs s)"
  by (induction evs arbitrary: s) (simp_all add: gw_inv_step)

text \<open>The only step that changes the mode to UPnP.\<close>

lemma to_UPnP_ctl_step:
  assumes "l_mode s = modeNATPMP" and "l_mode (ctl_step r s) = modeUPnP"
  shows "(\<exists>i. pc s = NatGW i \<and> \<not> i < length (gwa s))
     \<and> GetServicesByType (byUSN s) (clock s) upnpWANIPConnectionURN \<noteq> []
     \<and> ctl_step r s = s\<lparr>l_ok := False, l_mode := modeUPnP, pc := LoopTop\<rparr>"
  using assms unfolding ctl_step_def
  by (cases "pc s")
     (auto simp: step_defs Let_def
           split: if_splits response.splits result.splits prod.splits list.splits mode.splits)

lemma mode_step_other: "\<forall>r. e \<noteq> Step r \<Longrightarrow> l_mode (step e s) = l_mode s"
  by (cases e) (auto simp: step_def split: result.splits)

lemma to_NATPMP_ctl_step:
  assumes "l_mode s = modeUPnP" and "l_mode (ctl_step r s) = modeNATPMP"
  shows "pc s = LoopTop
     \<and> GetServicesByType (byUSN s) (clock s) upnpWANIPConnectionURN = []
     \<and> ctl_step r s = s\<lparr>l_mode := modeNATPMP, pc := LoopTop\<rparr>"
  using assms unfolding ctl_step_def
  by (cases "pc s")
     (auto simp: step_defs Let_def
           split: if_splits response.splits result.splits prod.splits list.splits mode.splits)











lemmas run_defs = step_def ctl_step_def step_defs init_def new_mapping_def example_cfg_def
  gw1_def Delete_def close_chan_def notify_def setInactive_def ExternalAddr_def isActive_def
  IsZero_def After_def Add_def JoinHostPort_def IPv4_String_def digit_char_def
  GetServicesByType_def upnpWANIPConnectionURN_def NextDelay_def Reset_def tdiv_def
  Hour_def Second_def DefaultLifetime_def BroadcastInterval_def Let_def

subsection \<open>Switching between NAT-PMP and UPnP\<close>

text \<open>
  C3. In every state that the controller reaches from its start, a step that changes the
  mode from NAT-PMP to UPnP is the step at the end of \<open>tryNATPMP\<close>: the loop over the
  gateways is past its last gateway, the trace ends with a failed \<open>natpmp.Map\<close> on every
  gateway, in order, and the registry returns at least one WANIPConnection:1 service at
  that moment. The step changes the mode, clears \<open>ok\<close> and goes back to the head of the
  loop; the mapping, with its backoff clock, and the trace stay as they are, so
  \<open>NextDelay\<close> is not called. A step that changes the mode back is the step at the head of
  the loop in mode UPnP with no service known, and that step does nothing else.
\<close>

theorem mode_switch:
  assumes "s = run evs (init c gws reg t0)"
  shows "(l_mode s = modeNATPMP \<and> l_mode (step e s) = modeUPnP \<longrightarrow>
            pc s = NatGW (length (gwa s)) \<and> all_failed (gwa s) (trace s)
            \<and> GetServicesByType (byUSN s) (clock s) upnpWANIPConnectionURN \<noteq> []
            \<and> (\<exists>r. e = Step r)
            \<and> step e s = s\<lparr>l_ok := False, l_mode := modeUPnP, pc := LoopTop\<rparr>)
       \<and> (l_mode s = modeUPnP \<and> l_mode (step e s) = modeNATPMP \<longrightarrow>
            pc s = LoopTop
            \<and> GetServicesByType (byUSN s) (clock s) upnpWANIPConnectionURN = []
            \<and> (\<exists>r. e = Step r)
            \<and> step e s = s\<lparr>l_mode := modeNATPMP, pc := LoopTop\<rparr>)
       \<and> (l_mode s = modeUPnP \<and> pc s = LoopTop
            \<and> \<not> (l_aborting s \<and> \<not> isActive (obj s) (clock s))
            \<and> GetServicesByType (byUSN s) (clock s) upnpWANIPConnectionURN = [] \<longrightarrow>
            step (Step r) s = s\<lparr>l_mode := modeNATPMP, pc := LoopTop\<rparr>)"
proof (intro conjI impI)
  have inv: "gw_inv s" unfolding assms by (rule gw_inv_run [OF gw_inv_init])
  {
    assume a: "l_mode s = modeNATPMP \<and> l_mode (step e s) = modeUPnP"
    then obtain r where e: "e = Step r"
      using mode_step_other [of e s] by (cases e) auto
    from a e have nc: "pc s \<noteq> Crashed" by (auto simp: step_def split: if_splits)
    with a e have m: "l_mode (ctl_step r s) = modeUPnP" by (simp add: step_def)
    from to_UPnP_ctl_step [OF _ m] a obtain i where
      i: "pc s = NatGW i" "\<not> i < length (gwa s)"
      and sv: "GetServicesByType (byUSN s) (clock s) upnpWANIPConnectionURN \<noteq> []"
      and st: "ctl_step r s = s\<lparr>l_ok := False, l_mode := modeUPnP, pc := LoopTop\<rparr>"
      by blast
    from inv i have il: "i = length (gwa s)" and fl: "all_failed (take i (gwa s)) (trace s)"
      by (simp_all add: gw_inv_def)
    show "pc s = NatGW (length (gwa s))" using i il by simp
    show "all_failed (gwa s) (trace s)" using fl il by simp
    show "GetServicesByType (byUSN s) (clock s) upnpWANIPConnectionURN \<noteq> []" by (rule sv)
    show "\<exists>r. e = Step r" using e by blast
    show "step e s = s\<lparr>l_ok := False, l_mode := modeUPnP, pc := LoopTop\<rparr>"
      using e nc st by (simp add: step_def)
  }
  {
    assume a: "l_mode s = modeUPnP \<and> l_mode (step e s) = modeNATPMP"
    then obtain r where e: "e = Step r"
      using mode_step_other [of e s] by (cases e) auto
    from a e have nc: "pc s \<noteq> Crashed" by (auto simp: step_def split: if_splits)
    with a e have m: "l_mode (ctl_step r s) = modeNATPMP" by (simp add: step_def)
    from to_NATPMP_ctl_step [OF _ m] a have
      p: "pc s = LoopTop"
      and sv: "GetServicesByType (byUSN s) (clock s) upnpWANIPConnectionURN = []"
      and st: "ctl_step r s = s\<lparr>l_mode := modeNATPMP, pc := LoopTop\<rparr>"
      by blast+
    show "pc s = LoopTop" by (rule p)
    show "GetServicesByType (byUSN s) (clock s) upnpWANIPConnectionURN = []" by (rule sv)
    show "\<exists>r. e = Step r" using e by blast
    show "step e s = s\<lparr>l_mode := modeNATPMP, pc := LoopTop\<rparr>"
      using e nc st by (simp add: step_def)
  }
  {
    assume "l_mode s = modeUPnP \<and> pc s = LoopTop
            \<and> \<not> (l_aborting s \<and> \<not> isActive (obj s) (clock s))
            \<and> GetServicesByType (byUSN s) (clock s) upnpWANIPConnectionURN = []"
    then show "step (Step r) s = s\<lparr>l_mode := modeNATPMP, pc := LoopTop\<rparr>"
      by (auto simp: step_def ctl_step_def step_LoopTop_def Let_def)
  }
qed

theorem mode_switch_witness:
  "pc (run [Step NoResponse, Step NoResponse, Step (MapResp (Err ErrTimeout))] example_start_igd)
     = NatGW (length (gwa (run [Step NoResponse, Step NoResponse, Step (MapResp (Err ErrTimeout))]
                             example_start_igd)))
   \<and> all_failed (gwa (run [Step NoResponse, Step NoResponse, Step (MapResp (Err ErrTimeout))]
                         example_start_igd))
        (trace (run [Step NoResponse, Step NoResponse, Step (MapResp (Err ErrTimeout))]
                  example_start_igd))
   \<and> step (Step NoResponse)
        (run [Step NoResponse, Step NoResponse, Step (MapResp (Err ErrTimeout))] example_start_igd)
     = (run [Step NoResponse, Step NoResponse, Step (MapResp (Err ErrTimeout))] example_start_igd)
         \<lparr>l_ok := False, l_mode := modeUPnP, pc := LoopTop\<rparr>"
proof -
  let ?s = "run [Step NoResponse, Step NoResponse, Step (MapResp (Err ErrTimeout))]
              example_start_igd"
  have m: "l_mode ?s = modeNATPMP \<and> l_mode (step (Step NoResponse) ?s) = modeUPnP"
    by (simp add: example_start_igd_def igd_registry_def run_defs)
  from mode_switch [of ?s "[Step NoResponse, Step NoResponse, Step (MapResp (Err ErrTimeout))]"
      example_cfg "[gw1]" igd_registry "1000 * Second" "Step NoResponse"] m
  show ?thesis unfolding example_start_igd_def by blast
qed

subsection \<open>The controller and Delete\<close>







subsection \<open>The UPnP client and a missing control URL\<close>

lemma fold_visitor_None:
  "\<forall>sv\<in>set svcs. \<not> (ServiceType sv = ''urn:schemas-upnp-org:service:WANIPConnection:1''
                        \<and> OK (ControlURL sv))
   \<Longrightarrow> fold visitor svcs None = None"
  by (induction svcs) (auto simp: visitor_def)

lemma VisitServices_None:
  "\<forall>sv\<in>set (services_of d). \<not> (ServiceType sv = ''urn:schemas-upnp-org:service:WANIPConnection:1''
                                  \<and> OK (ControlURL sv))
   \<Longrightarrow> VisitServices d visitor None = None"
proof (induction d)
  case (XDevice svcs devs)
  have devs: "fold (\<lambda>d. VisitServices d visitor) ds None = None" if "set ds \<subseteq> set devs" for ds
    using that
  proof (induction ds)
    case Nil
    then show ?case by simp
  next
    case (Cons a ds)
    then have a: "a \<in> set devs" by simp
    then have "\<forall>sv\<in>set (services_of a).
        \<not> (ServiceType sv = ''urn:schemas-upnp-org:service:WANIPConnection:1'' \<and> OK (ControlURL sv))"
      using XDevice.prems by auto
    with a have "VisitServices a visitor None = None" by (rule XDevice.IH)
    then show ?case using Cons by simp
  qed
  have "fold visitor svcs None = None"
    using XDevice.prems by (intro fold_visitor_None) auto
  then show ?case using devs [of devs] by simp
qed

lemma nil_Map: "fst (getWANIPControlURL w u) = None \<Longrightarrow> upnp_Map w u p ip ep n d = Panic"
  by (cases "getWANIPControlURL w u") (simp add: upnp_Map_def determineSelfIP_def Let_def)

lemma nil_Unmap: "fst (getWANIPControlURL w u) = None \<Longrightarrow> upnp_Unmap w u p ep = Panic"
  by (cases "getWANIPControlURL w u")
     (simp add: upnp_Unmap_def URL_String_def Protocol_String_def)

lemma nil_GetExternalAddr:
  "fst (getWANIPControlURL w u) = None \<Longrightarrow> upnp_GetExternalAddr w u = Panic"
  by (cases "getWANIPControlURL w u") (simp add: upnp_GetExternalAddr_def URL_String_def)

text \<open>
  C10. When the URL of the device description does not parse, the description cannot be
  fetched, comes with a status other than 200 or does not decode, or holds no
  WANIPConnection:1 service whose control URL parsed, \<open>getWANIPControlURL\<close> returns the
  nil URL. \<open>Map\<close>, \<open>Unmap\<close> and \<open>GetExternalAddr\<close> do not look at the error it returns and
  use the URL: each of them panics instead of returning an error.
\<close>

theorem upnp_nil_control_URL:
  "url_Parse w u = None \<or> http_Get w u = GetFails
   \<or> (\<exists>code b. http_Get w u = GetStatus code b \<and> (code \<noteq> 200 \<or> b = None))
   \<or> (\<exists>urlp root. url_Parse w u = Some urlp \<and> http_Get w u = GetStatus 200 (Some root)
         \<and> (\<forall>sv\<in>set (services_of (InitURLFields w urlp root)).
               \<not> (ServiceType sv = ''urn:schemas-upnp-org:service:WANIPConnection:1''
                   \<and> OK (ControlURL sv))))
   \<longrightarrow> fst (getWANIPControlURL w u) = None \<and> upnp_Map w u p ip ep n d = Panic
       \<and> upnp_Unmap w u p ep = Panic \<and> upnp_GetExternalAddr w u = Panic"
proof
  assume a: "url_Parse w u = None \<or> http_Get w u = GetFails
   \<or> (\<exists>code b. http_Get w u = GetStatus code b \<and> (code \<noteq> 200 \<or> b = None))
   \<or> (\<exists>urlp root. url_Parse w u = Some urlp \<and> http_Get w u = GetStatus 200 (Some root)
         \<and> (\<forall>sv\<in>set (services_of (InitURLFields w urlp root)).
               \<not> (ServiceType sv = ''urn:schemas-upnp-org:service:WANIPConnection:1''
                   \<and> OK (ControlURL sv))))"
  have nil: "fst (getWANIPControlURL w u) = None"
  proof (cases "url_Parse w u")
    case None
    then show ?thesis by (simp add: getWANIPControlURL_def)
  next
    case (Some urlp)
    show ?thesis
    proof (cases "http_Get w u")
      case GetFails
      then show ?thesis using Some by (simp add: getWANIPControlURL_def)
    next
      case (GetStatus code b)
      show ?thesis
      proof (cases "code \<noteq> 200 \<or> b = None")
        case True
        then show ?thesis using Some GetStatus by (auto simp: getWANIPControlURL_def)
      next
        case False
        then obtain root where b: "code = 200" "b = Some root" by auto
        with a Some GetStatus have
          "\<forall>sv\<in>set (services_of (InitURLFields w urlp root)).
             \<not> (ServiceType sv = ''urn:schemas-upnp-org:service:WANIPConnection:1''
                 \<and> OK (ControlURL sv))"
          by simp
        then have "VisitServices (InitURLFields w urlp root) visitor None = None"
          by (rule VisitServices_None)
        then show ?thesis using Some GetStatus b by (simp add: getWANIPControlURL_def)
      qed
    qed
  qed
  then show "fst (getWANIPControlURL w u) = None \<and> upnp_Map w u p ip ep n d = Panic
       \<and> upnp_Unmap w u p ep = Panic \<and> upnp_GetExternalAddr w u = Panic"
    by (simp add: nil_Map nil_Unmap nil_GetExternalAddr)
qed

theorem upnp_nil_control_URL_witness:
  "getWANIPControlURL ppp_web ''http://192.168.0.1:5000/rootDesc.xml'' = (None, None)
   \<and> upnp_Map ppp_web ''http://192.168.0.1:5000/rootDesc.xml'' 6 8080 8080 ''http'' (2 * Hour)
       = Panic
   \<and> upnp_Unmap ppp_web ''http://192.168.0.1:5000/rootDesc.xml'' 6 8080 = Panic
   \<and> upnp_GetExternalAddr ppp_web ''http://192.168.0.1:5000/rootDesc.xml'' = Panic
   \<and> getWANIPControlURL down_web ''http://192.168.0.1:5000/rootDesc.xml'' = (None, Some ErrHTTP)
   \<and> upnp_Map down_web ''http://192.168.0.1:5000/rootDesc.xml'' 6 8080 8080 ''http'' (2 * Hour)
       = Panic"
proof -
  let ?u = "''http://192.168.0.1:5000/rootDesc.xml''"
  have g: "getWANIPControlURL ppp_web ?u = (None, None)"
    and d: "getWANIPControlURL down_web ?u = (None, Some ErrHTTP)"
    by (simp_all add: getWANIPControlURL_def down_web_def ppp_web_def ppp_device_def visitor_def
        InitURLFields_service_def InitURLFields_field_def)
  have p: "url_Parse ppp_web ?u = Some ?u \<and> http_Get ppp_web ?u = GetStatus 200 (Some ppp_device)
      \<and> (\<forall>sv\<in>set (services_of (InitURLFields ppp_web ?u ppp_device)).
             \<not> (ServiceType sv = ''urn:schemas-upnp-org:service:WANIPConnection:1''
                 \<and> OK (ControlURL sv)))"
    by (simp add: ppp_web_def ppp_device_def InitURLFields_service_def InitURLFields_field_def)
  have f: "http_Get down_web ?u = GetFails"
    by (simp add: down_web_def)
  from upnp_nil_control_URL [of ppp_web ?u 6 8080 8080 "''http''" "2 * Hour"]
    upnp_nil_control_URL [of down_web ?u 6 8080 8080 "''http''" "2 * Hour"] p f g d
  show ?thesis by blast
qed

end
